theory Spec2Isabelle
  imports Main "HOL-Library.Char_ord" "HOL-Library.List_Lexorder" "HOL-Library.AList"
begin

section \<open>Tables\<close>

text \<open>
  Both scripts work on pandas / geopandas data frames.  A frame is modelled by its column
  labels and its rows; a row is an association list from column label to cell, in column
  order.  A cell is a missing value (NaN / None), a Python \<open>str\<close> or a number.  The
  scripts never compute with the numbers themselves (they are handed to the plotting
  library), so the numeric payload is an integer.  Strings are ASCII text.
\<close>

datatype cell = Null | Str string | Num int

type_synonym row = "(string \<times> cell) list"

record frame =
  columns :: "string list"
  rows :: "row list"

datatype error =
    KeyError string
  | ValueError string
  | MergeError string
  | AttributeError string
  | ExternalError string

text \<open>Sequencing of steps that can raise: the first exception ends the computation.\<close>

definition and_then :: "error + 'a \<Rightarrow> ('a \<Rightarrow> error + 'b) \<Rightarrow> error + 'b" where
  "and_then m f = (case m of Inl e \<Rightarrow> Inl e | Inr x \<Rightarrow> f x)"

text \<open>\<open>r[c]\<close> for a row; a label the row does not carry reads as missing.\<close>

definition lookup :: "row \<Rightarrow> string \<Rightarrow> cell" where
  "lookup r c = (case map_of r c of None \<Rightarrow> Null | Some v \<Rightarrow> v)"

text \<open>\<open>df[c]\<close>: the cells of one column, or \<open>KeyError\<close>.\<close>

definition col :: "frame \<Rightarrow> string \<Rightarrow> error + cell list" where
  "col df c =
     (if c \<in> set (columns df) then Inr (map (\<lambda>r. lookup r c) (rows df))
      else Inl (KeyError c))"

definition isna :: "cell \<Rightarrow> bool" where
  "isna v = (v = Null)"

text \<open>
  \<open>df[[c1, c2, ...]]\<close>: the sub-frame of the listed columns.  A missing label raises
  \<open>KeyError\<close>.  pandas accepts a repeated label and returns a frame with duplicate
  columns, on which the merge or the later \<open>merged[value_col]\<close> of the scripts fails; the
  model raises at the selection.
\<close>

definition select :: "string list \<Rightarrow> frame \<Rightarrow> error + frame" where
  "select cs df =
     (case filter (\<lambda>c. c \<notin> set (columns df)) cs of
        c # _ \<Rightarrow> Inl (KeyError c)
      | [] \<Rightarrow>
          if \<not> distinct cs then Inl (ValueError ''duplicate column labels'')
          else Inr \<lparr>columns = cs, rows = map (\<lambda>r. map (\<lambda>c. (c, lookup r c)) cs) (rows df)\<rparr>)"

text \<open>
  \<open>df.loc[df[by] == s, c] = v\<close>: in every row whose \<open>by\<close> cell is the string \<open>s\<close>
  the cell of column \<open>c\<close> becomes \<open>v\<close>.  Column labels are case sensitive.  When \<open>c\<close>
  is not a column of the frame, pandas first adds it, filled with missing values (and refuses
  to do so on a frame without rows).
\<close>

definition loc_assign :: "string \<Rightarrow> string \<Rightarrow> string \<Rightarrow> string \<Rightarrow> frame \<Rightarrow> error + frame" where
  "loc_assign by s c v df =
     (if by \<notin> set (columns df) then Inl (KeyError by)
      else if c \<notin> set (columns df) \<and> rows df = [] then
        Inl (ValueError ''cannot set a frame with no defined index and a scalar'')
      else Inr \<lparr>columns = (if c \<in> set (columns df) then columns df else columns df @ [c]),
                rows = map (\<lambda>r. AList.update c
                                   (if lookup r by = Str s then Str v else lookup r c) r)
                           (rows df)\<rparr>)"

section \<open>Strings\<close>

text \<open>
  \<open>str.upper()\<close> and \<open>str.strip()\<close> on ASCII text: the letters a to z are mapped to
  A to Z, and the characters Python counts as white space (tab, line feed, vertical tab,
  form feed, carriage return, the separators 0x1C to 0x1F and the blank) are removed at
  both ends.
\<close>

definition upper_char :: "char \<Rightarrow> char" where
  "upper_char c =
     (case map_of (zip ''abcdefghijklmnopqrstuvwxyz'' ''ABCDEFGHIJKLMNOPQRSTUVWXYZ'') c of
        None \<Rightarrow> c
      | Some u \<Rightarrow> u)"

definition lower_char :: "char \<Rightarrow> char" where
  "lower_char c =
     (case map_of (zip ''ABCDEFGHIJKLMNOPQRSTUVWXYZ'' ''abcdefghijklmnopqrstuvwxyz'') c of
        None \<Rightarrow> c
      | Some l \<Rightarrow> l)"

definition str_upper :: "string \<Rightarrow> string" where
  "str_upper s = map upper_char s"

definition isspace :: "char \<Rightarrow> bool" where
  "isspace c =
     (c \<in> set [CHR 0x09, CHR 0x0A, CHR 0x0B, CHR 0x0C, CHR 0x0D,
                CHR 0x1C, CHR 0x1D, CHR 0x1E, CHR 0x1F, CHR 0x20])"

definition str_strip :: "string \<Rightarrow> string" where
  "str_strip s = rev (dropWhile isspace (rev (dropWhile isspace s)))"

text \<open>\<open>str(n)\<close> for an integer, in decimal.\<close>

fun digits :: "nat \<Rightarrow> string" where
  "digits n =
     (if n < 10 then [''0123456789'' ! n]
      else digits (n div 10) @ [''0123456789'' ! (n mod 10)])"

definition str_of_int :: "int \<Rightarrow> string" where
  "str_of_int i = (if i < 0 then ''-'' @ digits (nat (- i)) else digits (nat i))"

text \<open>
  \<open>Series.astype(str)\<close>, cell by cell: a string stays, a number is printed, a missing
  value becomes the text \<open>nan\<close> (as pandas does on an object column before version 3).
\<close>

definition astype_str :: "cell \<Rightarrow> string" where
  "astype_str v = (case v of Null \<Rightarrow> ''nan'' | Str s \<Rightarrow> s | Num n \<Rightarrow> str_of_int n)"

section \<open>Loading the geometry table\<close>

text \<open>
  \<open>load_world\<close> of \<open>color_world_map.py\<close>.  The argument is what \<open>gpd.read_file\<close>
  returns for the bundled low resolution Natural Earth data set (or the exception it raises).
  The three assignments follow the source line by line.
\<close>

definition load_world :: "error + frame \<Rightarrow> error + frame" where
  "load_world read_file =
     and_then read_file (\<lambda>world.
     and_then (loc_assign ''name'' ''France'' ''iso_a3'' ''FRA'' world) (\<lambda>world.
     and_then (loc_assign ''name'' ''Norway'' ''iso_a3'' ''NOR'' world) (\<lambda>world.
     and_then (loc_assign ''name'' ''Somaliland'' ''iso_a3'' ''SOL'' world) (\<lambda>world.
     Inr world))))"

text \<open>
  \<open>_load_world\<close> of \<open>pain-to-map.py\<close> (called with \<open>verbose = False\<close>).  The rows are
  selected by the column \<open>SOVEREIGNT\<close> and the codes are written to the column
  \<open>sov_a3\<close>, as in the source; the join of this script uses \<open>CODE_COLUMN\<close>.
\<close>

definition CODE_COLUMN :: string where
  "CODE_COLUMN = ''SOV_A3''"

definition load_world_sov :: "error + frame \<Rightarrow> error + frame" where
  "load_world_sov read_file =
     and_then read_file (\<lambda>world.
     and_then (loc_assign ''SOVEREIGNT'' ''France'' ''sov_a3'' ''FRA'' world) (\<lambda>world.
     and_then (loc_assign ''SOVEREIGNT'' ''Norway'' ''sov_a3'' ''NOR'' world) (\<lambda>world.
     and_then (loc_assign ''SOVEREIGNT'' ''Somaliland'' ''sov_a3'' ''SOL'' world) (\<lambda>world.
     Inr world))))"

section \<open>Cleaning the codes and joining\<close>

text \<open>
  \<open>df[c] = df[c].astype(str).str.upper().str.strip()\<close>: the code column of the value
  table is overwritten in place, cell by cell.
\<close>

definition normalize_code :: "cell \<Rightarrow> cell" where
  "normalize_code v = Str (str_strip (str_upper (astype_str v)))"

definition clean_codes :: "string \<Rightarrow> frame \<Rightarrow> frame" where
  "clean_codes c df =
     df\<lparr>rows := map (\<lambda>r. AList.update c (normalize_code (lookup r c)) r) (rows df)\<rparr>"

text \<open>
  \<open>left.merge(right, left_on = l, right_on = r, how = "left")\<close>.  Every left row is kept,
  in order; it is paired with each right row whose key cell equals its own, in the order of
  the right table, or with missing values when there is none.  When both keys carry the
  same label the right key column is dropped; the labels the two tables still share get the
  suffixes \<open>_x\<close> and \<open>_y\<close>.  A result with a repeated label is reported as
  \<open>MergeError\<close>.  Key columns are of object dtype, as the string codes of both tables
  are.
\<close>

definition joined_rows ::
  "(string \<Rightarrow> string) \<Rightarrow> (string \<Rightarrow> string) \<Rightarrow> string list \<Rightarrow> string list \<Rightarrow>
   string \<Rightarrow> string \<Rightarrow> row list \<Rightarrow> row \<Rightarrow> row list" where
  "joined_rows lname rname lcols rcols left_on right_on rights g =
     (let left_part = map (\<lambda>c. (lname c, lookup g c)) lcols
      in case filter (\<lambda>v. lookup v right_on = lookup g left_on) rights of
           [] \<Rightarrow> [left_part @ map (\<lambda>c. (rname c, Null)) rcols]
         | v # vs \<Rightarrow> map (\<lambda>v. left_part @ map (\<lambda>c. (rname c, lookup v c)) rcols) (v # vs))"

definition merge_left :: "frame \<Rightarrow> frame \<Rightarrow> string \<Rightarrow> string \<Rightarrow> error + frame" where
  "merge_left left right left_on right_on =
     (if left_on \<notin> set (columns left) then Inl (KeyError left_on)
      else if right_on \<notin> set (columns right) then Inl (KeyError right_on)
      else
        let rcols = (if left_on = right_on then removeAll right_on (columns right)
                     else columns right);
            lname = (\<lambda>c. if c \<in> set rcols \<and> c \<in> set (columns left) then c @ ''_x'' else c);
            rname = (\<lambda>c. if c \<in> set rcols \<and> c \<in> set (columns left) then c @ ''_y'' else c);
            cols = map lname (columns left) @ map rname rcols
        in if \<not> distinct cols then Inl (MergeError ''duplicate columns'')
           else Inr \<lparr>columns = cols,
                     rows = concat (map (joined_rows lname rname (columns left) rcols
                                           left_on right_on (rows right))
                                        (rows left))\<rparr>)"

text \<open>
  The columns of the value table that take part in the join of \<open>color_world_map.py\<close>:
  \<open>[code_col, value_col] + ([name_col] if name_col else [])\<close>.
\<close>

definition join_columns :: "string \<Rightarrow> string \<Rightarrow> string option \<Rightarrow> string list" where
  "join_columns code_col value_col name_col =
     [code_col, value_col] @
     (case name_col of None \<Rightarrow> [] | Some n \<Rightarrow> if n = [] then [] else [n])"

text \<open>The \<open># Merge\<close> step of \<open>main\<close> (left key \<open>iso_a3\<close>).\<close>

definition merge_iso :: "frame \<Rightarrow> frame \<Rightarrow> string \<Rightarrow> string \<Rightarrow> string option \<Rightarrow> error + frame" where
  "merge_iso world df code_col value_col name_col =
     and_then (select (join_columns code_col value_col name_col) df) (\<lambda>right.
       merge_left world right ''iso_a3'' code_col)"

text \<open>The \<open># Merge\<close> step of \<open>generate_map\<close> (left key \<open>CODE_COLUMN\<close>).\<close>

definition merge_sov :: "frame \<Rightarrow> frame \<Rightarrow> string \<Rightarrow> string \<Rightarrow> error + frame" where
  "merge_sov world dataframe code_col value_col =
     and_then (select [code_col, value_col] dataframe) (\<lambda>right.
       merge_left world right CODE_COLUMN code_col)"

section \<open>Codes that did not match\<close>

text \<open>
  \<open>provided_codes = set(df[code_col].unique())\<close>,
  \<open>matched_codes = set(merged.loc[~merged[value_col].isna(), key].unique())\<close> and
  \<open>missing_codes = sorted(provided_codes - matched_codes)\<close>.  The provided codes are
  strings (the column has been cleaned), and Python sorts strings lexicographically by
  character.
\<close>

definition provided_codes :: "frame \<Rightarrow> string \<Rightarrow> error + cell list" where
  "provided_codes df code_col = and_then (col df code_col) (\<lambda>codes. Inr (remdups codes))"

definition matched_codes :: "frame \<Rightarrow> string \<Rightarrow> string \<Rightarrow> error + cell list" where
  "matched_codes merged value_col key =
     and_then (col merged value_col) (\<lambda>vals.
     and_then (col merged key) (\<lambda>keys.
       Inr (remdups (map snd (filter (\<lambda>(v, k). \<not> isna v) (zip vals keys))))))"

definition missing_codes :: "frame \<Rightarrow> frame \<Rightarrow> string \<Rightarrow> string \<Rightarrow> string \<Rightarrow> error + string list" where
  "missing_codes df merged code_col value_col key =
     and_then (provided_codes df code_col) (\<lambda>provided.
     and_then (matched_codes merged value_col key) (\<lambda>matched.
       Inr (sort (map astype_str (filter (\<lambda>c. c \<notin> set matched) provided)))))"

section \<open>What a run does\<close>

text \<open>
  A run of a script is described by the effects it has, in order, and by how it ends.
  Warnings carry their data instead of the formatted message: the unmatched codes (their
  number and the sorted list), and the projection name with the exception caught.
\<close>

record plot_call =
  column :: string
  cmap :: "string \<times> nat option"
  edgecolor :: "string option"
  missing_kwds :: "(string \<times> string) option"
  legend :: "(string \<times> string) option"

datatype event =
    Stderr string
  | Warn_unmatched nat "string list"
  | Warn_projection string error
  | Warn_labels error
  | Plot plot_call frame
  | Title string
  | Labels int
  | Saved string

datatype retval = RNone | RBool bool

datatype status = Returned retval | Exited nat | Raised error

record run =
  events :: "event list"
  status :: status

definition emit :: "event list \<Rightarrow> run \<Rightarrow> run" where
  "emit evs r = r\<lparr>events := evs @ events r\<rparr>"

definition raised :: "error \<Rightarrow> run" where
  "raised e = \<lparr>events = [], status = Raised e\<rparr>"

definition exited :: "string \<Rightarrow> nat \<Rightarrow> run" where
  "exited msg n = \<lparr>events = [Stderr msg], status = Exited n\<rparr>"

definition error_text :: "error \<Rightarrow> string" where
  "error_text e =
     (case e of KeyError s \<Rightarrow> s | ValueError s \<Rightarrow> s | MergeError s \<Rightarrow> s
      | AttributeError s \<Rightarrow> s | ExternalError s \<Rightarrow> s)"

text \<open>
  The warning step of both scripts: a warning is issued when the list of missing codes is
  not empty.  Issuing a warning does not raise.
\<close>

definition warn_unmatched :: "string list \<Rightarrow> event list" where
  "warn_unmatched missing = (if missing \<noteq> [] then [Warn_unmatched (length missing) missing] else [])"

section \<open>Projection\<close>

definition PROJECTIONS :: "(string \<times> string) list" where
  "PROJECTIONS =
     [(''PlateCarree'', ''EPSG:4326''),
      (''Mercator'', ''EPSG:3395''),
      (''Robinson'', ''+proj=robin +lon_0=0 +x_0=0 +y_0=0 +datum=WGS84 +units=m +no_defs''),
      (''Mollweide'', ''+proj=moll +lon_0=0 +x_0=0 +y_0=0 +datum=WGS84 +units=m +no_defs''),
      (''EqualEarth'', ''+proj=eqearth +lon_0=0 +datum=WGS84 +units=m +no_defs''),
      (''WinkelTripel'', ''+proj=wintri +lon_0=0 +datum=WGS84 +units=m +no_defs'')]"

definition USED_PROJECTION :: string where
  "USED_PROJECTION = ''PlateCarree''"

text \<open>\<open>PROJECTIONS.get(name, default)\<close> and \<open>PROJECTIONS[name]\<close>.\<close>

definition projections_get :: "string \<Rightarrow> string \<Rightarrow> string" where
  "projections_get name dflt = (case map_of PROJECTIONS name of None \<Rightarrow> dflt | Some c \<Rightarrow> c)"

definition projections_item :: "string \<Rightarrow> error + string" where
  "projections_item name =
     (case map_of PROJECTIONS name of None \<Rightarrow> Inl (KeyError name) | Some c \<Rightarrow> Inr c)"

text \<open>
  The \<open># Projection\<close> step: \<open>merged.to_crs(crs)\<close> inside \<open>try\<close>; the handler warns and
  calls \<open>merged.to_crs(PROJECTIONS["PlateCarree"])\<close>, outside any \<open>try\<close>.  The
  reprojection itself belongs to geopandas: \<open>to_crs\<close> is a parameter, a function of the
  target and the table that returns the reprojected table or the exception raised.  The
  target is optional because \<open>dict.get\<close> returns \<open>None\<close> for a key that is absent.
\<close>

definition reproject ::
  "(string option \<Rightarrow> frame \<Rightarrow> error + frame) \<Rightarrow> string \<Rightarrow> string option \<Rightarrow> frame \<Rightarrow>
   event list \<times> (error + frame)" where
  "reproject to_crs name crs merged =
     (case to_crs crs merged of
        Inr m \<Rightarrow> ([], Inr m)
      | Inl e \<Rightarrow>
          ([Warn_projection name e],
           and_then (projections_item ''PlateCarree'') (\<lambda>c. to_crs (Some c) merged)))"

section \<open>Classification\<close>

text \<open>
  The classifiers belong to mapclassify.  A classifier object is represented by the
  constructor call that makes it: the series it is fitted on and, where the call passes it,
  the number of classes \<open>k\<close>.
\<close>

datatype classifier =
    Quantiles "cell list" int
  | EqualInterval "cell list" int
  | NaturalBreaks "cell list" int
  | StdMean "cell list"

definition str_lower :: "string \<Rightarrow> string" where
  "str_lower s = map lower_char s"

definition classify_values :: "cell list \<Rightarrow> string option \<Rightarrow> int \<Rightarrow> classifier option" where
  "classify_values series scheme k =
     (let scheme = str_lower (case scheme of None \<Rightarrow> [] | Some s \<Rightarrow> s)
      in if scheme \<in> set [''quantiles'', ''quantile'', ''q''] then Some (Quantiles series k)
         else if scheme \<in> set [''equal_interval'', ''equalinterval'', ''equal'', ''ei'']
           then Some (EqualInterval series k)
         else if scheme \<in> set [''natural_breaks'', ''jenks'', ''nb'']
           then Some (NaturalBreaks series k)
         else if scheme \<in> set [''std_mean'', ''std'', ''zscore''] then Some (StdMean series)
         else None)"

text \<open>The number of classes a constructor call asks the library for, when it names one.\<close>

definition requested_k :: "classifier \<Rightarrow> int option" where
  "requested_k c =
     (case c of Quantiles y k \<Rightarrow> Some k | EqualInterval y k \<Rightarrow> Some k
      | NaturalBreaks y k \<Rightarrow> Some k | StdMean y \<Rightarrow> None)"

definition fitted_on :: "classifier \<Rightarrow> cell list" where
  "fitted_on c =
     (case c of Quantiles y k \<Rightarrow> y | EqualInterval y k \<Rightarrow> y
      | NaturalBreaks y k \<Rightarrow> y | StdMean y \<Rightarrow> y)"

text \<open>\<open>Series.dropna()\<close> and \<open>df[c] = cells\<close>.\<close>

definition dropna :: "cell list \<Rightarrow> cell list" where
  "dropna vs = filter (\<lambda>v. \<not> isna v) vs"

definition set_column :: "string \<Rightarrow> cell list \<Rightarrow> frame \<Rightarrow> frame" where
  "set_column c vs df =
     \<lparr>columns = (if c \<in> set (columns df) then columns df else columns df @ [c]),
      rows = map (\<lambda>(r, v). AList.update c v r) (zip (rows df) vs)\<rparr>"

section \<open>Drawing\<close>

text \<open>
  \<open>GeoDataFrame.plot\<close> belongs to geopandas.  What the scripts decide is the call: the
  column to colour by, the colour map (with the number of bins when it is discrete), the
  edge colour, the \<open>missing_kwds\<close> (colour and edge colour) and the legend (title and
  format).  Line widths and figure sizes are floating point numbers passed through
  unchanged and are left out.  A call recorded in a run is \<open>Plot call table\<close>.

  geopandas documents how a row is filled: by the colour map when its cell in the plotted
  column is present; with the colour of \<open>missing_kwds\<close> when the cell is missing and
  \<open>missing_kwds\<close> is given; not at all when it is missing and \<open>missing_kwds\<close> is not
  given.
\<close>

datatype fill = Not_drawn | Colour string | From_cmap string cell

definition fill_of :: "plot_call \<Rightarrow> row \<Rightarrow> fill" where
  "fill_of call r =
     (if isna (lookup r (column call)) then
        (case missing_kwds call of None \<Rightarrow> Not_drawn | Some (c, e) \<Rightarrow> Colour c)
      else From_cmap (fst (cmap call)) (lookup r (column call)))"

section \<open>color\_world\_map.py\<close>

text \<open>
  The parsed command line.  \<open>None\<close> is an option that was not given and has no default.
\<close>

record args =
  args_data :: string
  args_out :: string
  args_code_col :: string
  args_value_col :: string
  args_name_col :: "string option"
  args_title :: "string option"
  args_cmap :: string
  args_missing_color :: string
  args_edge_color :: string
  args_projection :: string
  args_scheme :: "string option"
  args_k :: int
  args_legend :: bool
  args_legend_title :: "string option"
  args_label_topn :: int
  args_format_values :: string

definition default_args :: "string \<Rightarrow> string \<Rightarrow> args" where
  "default_args data out =
     \<lparr>args_data = data, args_out = out, args_code_col = ''iso_a3'', args_value_col = ''value'',
      args_name_col = None, args_title = None, args_cmap = ''viridis'',
      args_missing_color = ''#EEEEEE'', args_edge_color = ''#FFFFFF'',
      args_projection = ''Robinson'', args_scheme = None, args_k = 5, args_legend = False,
      args_legend_title = None, args_label_topn = 0, args_format_values = ''.2f''\<rparr>"

text \<open>
  What the libraries and the file system answer during a run: the table \<open>pd.read_csv\<close>
  returns, the table \<open>gpd.read_file\<close> returns, the reprojection, the number of bins of a
  fitted classifier and the classes it assigns, whether the labels could be placed, and
  whether the figure could be saved (\<open>None\<close>: no exception).
\<close>

record env =
  read_csv :: "error + frame"
  read_file :: "error + frame"
  to_crs :: "string option \<Rightarrow> frame \<Rightarrow> error + frame"
  n_bins :: "classifier \<Rightarrow> nat"
  classes :: "classifier \<Rightarrow> cell list \<Rightarrow> cell list"
  place_labels :: "frame \<Rightarrow> error option"
  savefig :: "string \<Rightarrow> error option"

text \<open>Python's truth value of an optional string: \<open>None\<close> and the empty string are false.\<close>

definition truthy :: "string option \<Rightarrow> bool" where
  "truthy s = (case s of None \<Rightarrow> False | Some t \<Rightarrow> t \<noteq> [])"

definition columns_message :: "string \<Rightarrow> string \<Rightarrow> string" where
  "columns_message code_col value_col =
     ''CSV must include columns '' @ [CHR 0x27] @ code_col @ [CHR 0x27] @ '' and '' @
     [CHR 0x27] @ value_col @ [CHR 0x27]"

definition plot_kwargs :: "args \<Rightarrow> string \<Rightarrow> string \<times> nat option \<Rightarrow> plot_call" where
  "plot_kwargs a column_to_plot cm =
     \<lparr>column = column_to_plot, cmap = cm, edgecolor = Some (args_edge_color a),
      missing_kwds = Some (args_missing_color a, args_edge_color a), legend = None\<rparr>"

definition legend_kwds :: "args \<Rightarrow> string \<times> string" where
  "legend_kwds a =
     (case args_legend_title a of
        None \<Rightarrow> args_value_col a
      | Some t \<Rightarrow> if t = [] then args_value_col a else t,
      args_format_values a)"

definition save_figure :: "env \<Rightarrow> string \<Rightarrow> run" where
  "save_figure env out =
     (case savefig env out of
        None \<Rightarrow> \<lparr>events = [Saved out], status = Returned RNone\<rparr>
      | Some e \<Rightarrow> exited (''Failed to save figure: '' @ error_text e) 1)"

definition label_topn :: "env \<Rightarrow> args \<Rightarrow> frame \<Rightarrow> event list" where
  "label_topn env a merged =
     (if args_label_topn a \<noteq> 0 \<and> args_label_topn a > 0 then
        (case place_labels env merged of
           None \<Rightarrow> [Labels (args_label_topn a)]
         | Some e \<Rightarrow> [Warn_labels e])
      else [])"

text \<open>The \<open># Plot\<close> part of \<open>main\<close>, up to the end.\<close>

definition draw :: "env \<Rightarrow> args \<Rightarrow> frame \<Rightarrow> string \<Rightarrow> string \<times> nat option \<Rightarrow> run" where
  "draw env a merged column_to_plot cm =
     (if column_to_plot \<notin> set (columns merged) then raised (KeyError column_to_plot)
      else
        emit ([Plot (plot_kwargs a column_to_plot cm) merged] @
              (case args_title a of
                 None \<Rightarrow> []
               | Some t \<Rightarrow> if t = [] then [] else [Title t]) @
              (if args_legend a
               then [Plot ((plot_kwargs a column_to_plot cm)\<lparr>legend := Some (legend_kwds a)\<rparr>) merged]
               else []) @
              label_topn env a merged)
          (save_figure env (args_out a)))"

text \<open>The \<open># Prepare classification or continuous mapping\<close> part.\<close>

definition colour :: "env \<Rightarrow> args \<Rightarrow> frame \<Rightarrow> run" where
  "colour env a merged =
     (case col merged (args_value_col a) of
        Inl e \<Rightarrow> raised e
      | Inr vals \<Rightarrow>
          if truthy (args_scheme a) then
            let valid = dropna vals
            in if length valid = 0 then exited ''No numeric values to classify.'' 1
               else
                 (case classify_values valid (args_scheme a) (args_k a) of
                    None \<Rightarrow> raised (AttributeError ''bins'')
                  | Some classifier \<Rightarrow>
                      if length (classes env classifier vals) \<noteq> length vals
                      then raised (ValueError ''length of values does not match length of index'')
                      else draw env a
                             (set_column ''_class'' (classes env classifier vals) merged)
                             ''_class'' (args_cmap a, Some (n_bins env classifier)))
          else draw env a merged (args_value_col a) (args_cmap a, None))"

text \<open>The \<open># Projection\<close> step of \<open>main\<close> and everything after it.\<close>

definition project_and_draw :: "env \<Rightarrow> args \<Rightarrow> frame \<Rightarrow> run" where
  "project_and_draw env a merged =
     (case reproject (to_crs env) (args_projection a)
             (Some (projections_get (args_projection a) ''EPSG:4326'')) merged of
        (warned, Inl e) \<Rightarrow> emit warned (raised e)
      | (warned, Inr projected) \<Rightarrow> emit warned (colour env a projected))"

text \<open>
  \<open>main\<close>.  argparse refuses a \<open>--projection\<close> outside the keys of \<open>PROJECTIONS\<close>
  and exits with status 2 before anything is read.
\<close>

definition main :: "env \<Rightarrow> args \<Rightarrow> run" where
  "main env a =
     (if args_projection a \<notin> set (map fst PROJECTIONS) then
        exited (''argument --projection: invalid choice: '' @ args_projection a) 2
      else
        case read_csv env of
          Inl e \<Rightarrow> exited (''Failed to read CSV: '' @ error_text e) 1
        | Inr df0 \<Rightarrow>
            if args_code_col a \<notin> set (columns df0) \<or> args_value_col a \<notin> set (columns df0) then
              exited (columns_message (args_code_col a) (args_value_col a)) 1
            else
              let df = clean_codes (args_code_col a) df0
              in case load_world (read_file env) of
                   Inl e \<Rightarrow> raised e
                 | Inr world \<Rightarrow>
                     (case merge_iso world df (args_code_col a) (args_value_col a) (args_name_col a) of
                        Inl e \<Rightarrow> raised e
                      | Inr merged \<Rightarrow>
                          (case missing_codes df merged (args_code_col a) (args_value_col a) ''iso_a3'' of
                             Inl e \<Rightarrow> raised e
                           | Inr missing \<Rightarrow>
                               emit (warn_unmatched missing) (project_and_draw env a merged))))"

section \<open>pain-to-map.py\<close>

text \<open>
  \<open>generate_map\<close>.  The function changes the caller's table in place, so it returns the
  run together with the table as it is afterwards.  \<open>plot_kwargs\<close> is built in the source
  but the call that used it is commented out: the table is drawn by
  \<open>merged.plot(column="value", ax=ax, cmap=cmap)\<close>.  The names that both scripts use
  carry the suffix \<open>_sov\<close> here.
\<close>

definition args_edge_color_sov :: string where
  "args_edge_color_sov = ''#00FF37''"

definition args_missing_color_sov :: string where
  "args_missing_color_sov = ''#EEEEEE''"

text \<open>
  The \<open>missing_kwds\<close> entry (colour and edge colour) of the dictionary \<open>plot_kwargs\<close>
  that \<open>generate_map\<close> builds.  No call of the function receives the dictionary.
\<close>

definition missing_kwds_sov :: "string \<times> string" where
  "missing_kwds_sov = (args_missing_color_sov, args_edge_color_sov)"

definition default_output_path :: string where
  "default_output_path = ''../data/world.png''"

definition save_map :: "env \<Rightarrow> string \<Rightarrow> run" where
  "save_map env output_path =
     (case savefig env output_path of
        None \<Rightarrow> \<lparr>events = [Saved output_path], status = Returned (RBool True)\<rparr>
      | Some e \<Rightarrow>
          \<lparr>events = [Stderr (''Failed to save figure: '' @ error_text e)],
           status = Returned (RBool False)\<rparr>)"

definition draw_map :: "env \<Rightarrow> frame \<Rightarrow> string \<Rightarrow> string \<Rightarrow> run" where
  "draw_map env merged cm output_path =
     (if ''value'' \<notin> set (columns merged) then raised (KeyError ''value'')
      else
        emit [Plot \<lparr>column = ''value'', cmap = (cm, None), edgecolor = None,
                    missing_kwds = None, legend = None\<rparr> merged,
              Title ''TODO Title'']
          (save_map env output_path))"

text \<open>The \<open># Projection\<close> step of \<open>generate_map\<close> and everything after it.\<close>

definition project_and_draw_map :: "env \<Rightarrow> frame \<Rightarrow> string \<Rightarrow> string \<Rightarrow> run" where
  "project_and_draw_map env merged cm output_path =
     (case reproject (to_crs env) USED_PROJECTION (map_of PROJECTIONS USED_PROJECTION) merged of
        (warned, Inl e) \<Rightarrow> emit warned (raised e)
      | (warned, Inr projected) \<Rightarrow> emit warned (draw_map env projected cm output_path))"

definition generate_map ::
  "env \<Rightarrow> frame \<Rightarrow> string option \<Rightarrow> string \<Rightarrow> string \<Rightarrow> string \<Rightarrow> run \<times> frame" where
  "generate_map env dataframe output_path cm value_col code_col =
     (let output_path = (case output_path of None \<Rightarrow> default_output_path | Some p \<Rightarrow> p)
      in if code_col \<notin> set (columns dataframe) \<or> value_col \<notin> set (columns dataframe) then
           (\<lparr>events = [Stderr (columns_message code_col value_col)], status = Returned RNone\<rparr>,
            dataframe)
         else
           let df = clean_codes code_col dataframe
           in (case load_world_sov (read_file env) of
                 Inl e \<Rightarrow> raised e
               | Inr world \<Rightarrow>
                   (case merge_sov world df code_col value_col of
                      Inl e \<Rightarrow> raised e
                    | Inr merged \<Rightarrow>
                        (case missing_codes df merged code_col value_col CODE_COLUMN of
                           Inl e \<Rightarrow> raised e
                         | Inr missing \<Rightarrow>
                             emit (warn_unmatched missing)
                               (project_and_draw_map env merged cm output_path))),
               df))"

text \<open>The defaults of \<open>generate_map\<close>'s keyword parameters.\<close>

definition generate_map_default :: "env \<Rightarrow> frame \<Rightarrow> run \<times> frame" where
  "generate_map_default env dataframe = generate_map env dataframe None ''Greys'' ''value'' ''sov_a3''"

section \<open>Notions used to state the properties\<close>

text \<open>
  A left join, in the words of the specification: every row of the left table appears in the
  merged table; every merged row extends a left row, cell by cell in column order; a merged
  row whose key has no partner in the right table carries a missing value in the value
  column; any other merged row carries the value of a right row with that key.
\<close>

definition left_join_of :: "frame \<Rightarrow> frame \<Rightarrow> string \<Rightarrow> string \<Rightarrow> string \<Rightarrow> frame \<Rightarrow> bool" where
  "left_join_of left right left_on right_on value_col merged =
     ((\<forall>g\<in>set (rows left). \<exists>m\<in>set (rows merged).
          map snd (take (length (columns left)) m) = map (lookup g) (columns left))
      \<and> (\<forall>m\<in>set (rows merged). \<exists>g\<in>set (rows left).
          map snd (take (length (columns left)) m) = map (lookup g) (columns left)
          \<and> lookup m left_on = lookup g left_on)
      \<and> (\<forall>m\<in>set (rows merged).
          if \<exists>v\<in>set (rows right). lookup v right_on = lookup m left_on
          then \<exists>v\<in>set (rows right).
                 lookup v right_on = lookup m left_on \<and> lookup m value_col = lookup v value_col
          else lookup m value_col = Null))"

text \<open>
  Changes to a code that the cleaning step is meant to absorb: the case of some letters is
  swapped (one flag per character) and white space is put in front and behind.  An edit is
  applied to string codes only, row by row.
\<close>

definition swapcase_char :: "char \<Rightarrow> char" where
  "swapcase_char c = (if upper_char c \<noteq> c then upper_char c else lower_char c)"

fun recase :: "bool list \<Rightarrow> string \<Rightarrow> string" where
  "recase (b # bs) (c # cs) = (if b then swapcase_char c else c) # recase bs cs"
| "recase bs cs = cs"

type_synonym edit = "string \<times> bool list \<times> string"

definition edit_code :: "edit \<Rightarrow> cell \<Rightarrow> cell" where
  "edit_code e v =
     (case e of (leading, flips, trailing) \<Rightarrow>
        (case v of Str s \<Rightarrow> Str (leading @ recase flips s @ trailing) | Null \<Rightarrow> v | Num n \<Rightarrow> v))"

definition blank_padding :: "edit \<Rightarrow> bool" where
  "blank_padding e =
     (case e of (leading, flips, trailing) \<Rightarrow> list_all isspace leading \<and> list_all isspace trailing)"

fun edit_rows :: "string \<Rightarrow> edit list \<Rightarrow> row list \<Rightarrow> row list" where
  "edit_rows c (e # es) (r # rs) = AList.update c (edit_code e (lookup r c)) r # edit_rows c es rs"
| "edit_rows c es rs = rs"

definition edit_codes :: "string \<Rightarrow> edit list \<Rightarrow> frame \<Rightarrow> frame" where
  "edit_codes c es df =
     (if c \<in> set (columns df) then df\<lparr>rows := edit_rows c es (rows df)\<rparr> else df)"

text \<open>
  The codes the warning is about, in the words of the specification: the provided codes for
  which no merged row has a value that is present.
\<close>

definition unmatched_codes :: "frame \<Rightarrow> frame \<Rightarrow> string \<Rightarrow> string \<Rightarrow> string \<Rightarrow> string set" where
  "unmatched_codes df merged code_col value_col key =
     {s. Str s \<in> (\<lambda>r. lookup r code_col) ` set (rows df) \<and>
         (\<forall>m\<in>set (rows merged). lookup m key = Str s \<longrightarrow> isna (lookup m value_col))}"

section \<open>Sample data\<close>

text \<open>
  A small geometry table in the shape of the Natural Earth data (name and code; two of the
  codes are the placeholder \<open>-99\<close>), and a value table with a repeated code, a code in
  lower case with blanks, a code that matches nothing, and a code without a value.
\<close>

definition sample_world :: frame where
  "sample_world =
     \<lparr>columns = [''name'', ''iso_a3''],
      rows = [[(''name'', Str ''France''), (''iso_a3'', Str ''-99'')],
              [(''name'', Str ''Chad''), (''iso_a3'', Str ''TCD'')],
              [(''name'', Str ''Norway''), (''iso_a3'', Str ''-99'')]]\<rparr>"

definition sample_values :: frame where
  "sample_values =
     \<lparr>columns = [''iso_a3'', ''value''],
      rows = [[(''iso_a3'', Str '' fra''), (''value'', Num 3)],
              [(''iso_a3'', Str ''FRA ''), (''value'', Num 4)],
              [(''iso_a3'', Str ''xyz''), (''value'', Num 5)],
              [(''iso_a3'', Str ''nor''), (''value'', Null)]]\<rparr>"

definition sample_world_sov :: frame where
  "sample_world_sov =
     \<lparr>columns = [''SOVEREIGNT'', ''SOV_A3''],
      rows = [[(''SOVEREIGNT'', Str ''France''), (''SOV_A3'', Str ''FR1'')],
              [(''SOVEREIGNT'', Str ''Chad''), (''SOV_A3'', Str ''TCD'')]]\<rparr>"

definition sample_values_sov :: frame where
  "sample_values_sov =
     \<lparr>columns = [''sov_a3'', ''value''],
      rows = [[(''sov_a3'', Str ''tcd''), (''value'', Num 5)],
              [(''sov_a3'', Str ''TCD''), (''value'', Num 6)]]\<rparr>"

text \<open>
  Libraries that answer without an exception, and the same with a reprojection that always
  raises, as geopandas does for a table that carries no coordinate reference system.
\<close>

definition sample_env :: env where
  "sample_env =
     \<lparr>read_csv = Inr sample_values, read_file = Inr sample_world,
      to_crs = (\<lambda>crs m. Inr m), n_bins = (\<lambda>c. 5), classes = (\<lambda>c vs. vs),
      place_labels = (\<lambda>m. None), savefig = (\<lambda>p. None)\<rparr>"

definition sample_env_sov :: env where
  "sample_env_sov = sample_env\<lparr>read_file := Inr sample_world_sov\<rparr>"

definition naive_geometries :: error where
  "naive_geometries = ValueError ''Cannot transform naive geometries''"

definition no_crs :: "string option \<Rightarrow> frame \<Rightarrow> error + frame" where
  "no_crs crs m = Inl naive_geometries"

text \<open>What the two scripts have after their merge step on the sample data.\<close>

definition sample_merged :: frame where
  "sample_merged =
     \<lparr>columns = [''name'', ''iso_a3'', ''value''],
      rows = [[(''name'', Str ''France''), (''iso_a3'', Str ''FRA''), (''value'', Num 3)],
              [(''name'', Str ''France''), (''iso_a3'', Str ''FRA''), (''value'', Num 4)],
              [(''name'', Str ''Chad''), (''iso_a3'', Str ''TCD''), (''value'', Null)],
              [(''name'', Str ''Norway''), (''iso_a3'', Str ''NOR''), (''value'', Null)]]\<rparr>"

definition sample_merged_sov :: frame where
  "sample_merged_sov =
     \<lparr>columns = [''SOVEREIGNT'', ''SOV_A3'', ''sov_a3_x'', ''sov_a3_y'', ''value''],
      rows = [[(''SOVEREIGNT'', Str ''France''), (''SOV_A3'', Str ''FR1''),
               (''sov_a3_x'', Str ''FRA''), (''sov_a3_y'', Null), (''value'', Null)],
              [(''SOVEREIGNT'', Str ''Chad''), (''SOV_A3'', Str ''TCD''),
               (''sov_a3_x'', Null), (''sov_a3_y'', Str ''TCD''), (''value'', Num 5)],
              [(''SOVEREIGNT'', Str ''Chad''), (''SOV_A3'', Str ''TCD''),
               (''sov_a3_x'', Null), (''sov_a3_y'', Str ''TCD''), (''value'', Num 6)]]\<rparr>"

text \<open>
  Two further reprojections: one that succeeds only for the Mollweide string (and marks the
  table it returns), and one that succeeds only for \<open>EPSG:4326\<close>.
\<close>

definition mollweide :: "string option \<Rightarrow> frame \<Rightarrow> error + frame" where
  "mollweide crs m =
     (if crs = Some ''+proj=moll +lon_0=0 +x_0=0 +y_0=0 +datum=WGS84 +units=m +no_defs''
      then Inr (m\<lparr>columns := columns m @ [''reprojected'']\<rparr>) else Inl naive_geometries)"

definition robinson_fails :: "string option \<Rightarrow> frame \<Rightarrow> error + frame" where
  "robinson_fails crs m = (if crs = Some ''EPSG:4326'' then Inr m else Inl naive_geometries)"

text \<open>The sample geometry tables as the two loaders return them.\<close>

definition sample_world_loaded :: frame where
  "sample_world_loaded =
     \<lparr>columns = [''name'', ''iso_a3''],
      rows = [[(''name'', Str ''France''), (''iso_a3'', Str ''FRA'')],
              [(''name'', Str ''Chad''), (''iso_a3'', Str ''TCD'')],
              [(''name'', Str ''Norway''), (''iso_a3'', Str ''NOR'')]]\<rparr>"

definition sample_world_sov_loaded :: frame where
  "sample_world_sov_loaded =
     \<lparr>columns = [''SOVEREIGNT'', ''SOV_A3'', ''sov_a3''],
      rows = [[(''SOVEREIGNT'', Str ''France''), (''SOV_A3'', Str ''FR1''),
               (''sov_a3'', Str ''FRA'')],
              [(''SOVEREIGNT'', Str ''Chad''), (''SOV_A3'', Str ''TCD''),
               (''sov_a3'', Null)]]\<rparr>"

text \<open>
  Edits of the first two codes of the sample value table: blanks in front, the case of the
  letter \<open>f\<close> swapped, a blank behind; and the case of all three letters swapped.
\<close>

definition sample_edits :: "edit list" where
  "sample_edits = [(''  '', [False, True], '' ''), ([], [True, True, True], [])]"

section \<open>Auxiliary facts\<close>

lemma and_then_Inr [simp]: "and_then (Inr x) f = f x"
  by (simp add: and_then_def)

lemma and_then_Inl [simp]: "and_then (Inl e) f = Inl e"
  by (simp add: and_then_def)


lemma lookup_update: "lookup (AList.update k v r) c = (if c = k then v else lookup r c)"
  by (simp add: lookup_def update_conv)

lemma map_of_relabel:
  "inj_on f (set cs) \<Longrightarrow> c \<in> set cs \<Longrightarrow> map_of (map (\<lambda>c. (f c, h c)) cs) (f c) = Some (h c)"
  by (induction cs) (auto simp: inj_on_def)

lemma map_of_relabel_None:
  "k \<notin> f ` set cs \<Longrightarrow> map_of (map (\<lambda>c. (f c, h c)) cs) k = None"
  by (induction cs) auto

lemma lookup_left_part:
  assumes "distinct (map ln lc @ map rn rc)" and "c \<in> set lc"
  shows "lookup (map (\<lambda>c. (ln c, f c)) lc @ map (\<lambda>c. (rn c, h c)) rc) (ln c) = f c"
proof -
  from assms(1) have "inj_on ln (set lc)" by (simp add: distinct_map)
  with assms(2) show ?thesis by (simp add: lookup_def map_of_relabel)
qed

lemma lookup_right_part:
  assumes "distinct (map ln lc @ map rn rc)" and "c \<in> set rc"
  shows "lookup (map (\<lambda>c. (ln c, f c)) lc @ map (\<lambda>c. (rn c, h c)) rc) (rn c) = h c"
proof -
  from assms(1) have inj: "inj_on rn (set rc)" and dis: "set (map ln lc) \<inter> set (map rn rc) = {}"
    by (simp_all add: distinct_map)
  from dis assms(2) have "rn c \<notin> ln ` set lc" by auto
  then have "map_of (map (\<lambda>c. (ln c, f c)) lc) (rn c) = None" by (rule map_of_relabel_None)
  with inj assms(2) show ?thesis by (simp add: lookup_def map_of_relabel map_add_def)
qed

lemma joined_rows_cases:
  assumes "m \<in> set (joined_rows ln rn lc rc l r R g)"
  shows "(m = map (\<lambda>c. (ln c, lookup g c)) lc @ map (\<lambda>c. (rn c, Null)) rc \<and>
          (\<forall>v\<in>set R. lookup v r \<noteq> lookup g l))
       \<or> (\<exists>v\<in>set R. lookup v r = lookup g l \<and>
             m = map (\<lambda>c. (ln c, lookup g c)) lc @ map (\<lambda>c. (rn c, lookup v c)) rc)"
proof (cases "filter (\<lambda>v. lookup v r = lookup g l) R")
  case Nil
  then have "\<forall>v\<in>set R. lookup v r \<noteq> lookup g l" by (simp add: filter_empty_conv)
  with assms Nil show ?thesis by (simp add: joined_rows_def Let_def)
next
  case (Cons v vs)
  with assms obtain w where "w \<in> set (v # vs)"
    and m: "m = map (\<lambda>c. (ln c, lookup g c)) lc @ map (\<lambda>c. (rn c, lookup w c)) rc"
    by (auto simp: joined_rows_def Let_def)
  then have "w \<in> set (filter (\<lambda>v. lookup v r = lookup g l) R)" using Cons by simp
  then have "w \<in> set R" "lookup w r = lookup g l" by simp_all
  with m show ?thesis by blast
qed

lemma joined_rows_match:
  assumes "v \<in> set R" and "lookup v r = lookup g l"
  shows "map (\<lambda>c. (ln c, lookup g c)) lc @ map (\<lambda>c. (rn c, lookup v c)) rc
         \<in> set (joined_rows ln rn lc rc l r R g)"
proof -
  from assms have v: "v \<in> set (filter (\<lambda>v. lookup v r = lookup g l) R)" by simp
  then obtain w ws where ws: "filter (\<lambda>v. lookup v r = lookup g l) R = w # ws"
    by (cases "filter (\<lambda>v. lookup v r = lookup g l) R") auto
  with v have "v \<in> set (w # ws)" by simp
  then show ?thesis unfolding joined_rows_def Let_def ws by (simp add: image_iff) blast
qed

lemma length_joined_rows:
  "length (joined_rows ln rn lc rc l r R g) =
   max 1 (length (filter (\<lambda>v. lookup v r = lookup g l) R))"
  by (cases "filter (\<lambda>v. lookup v r = lookup g l) R") (simp_all add: joined_rows_def Let_def)

lemma joined_rows_left:
  assumes "m \<in> set (joined_rows ln rn lc rc l r R g)"
  shows "map snd (take (length lc) m) = map (lookup g) lc"
  using joined_rows_cases [OF assms] by (auto simp: comp_def)

lemma merge_left_Inr:
  assumes "merge_left L R l r = Inr M"
  obtains rc ln rn where
    "rc = (if l = r then removeAll r (columns R) else columns R)"
    "ln = (\<lambda>c. if c \<in> set rc \<and> c \<in> set (columns L) then c @ ''_x'' else c)"
    "rn = (\<lambda>c. if c \<in> set rc \<and> c \<in> set (columns L) then c @ ''_y'' else c)"
    "l \<in> set (columns L)" "r \<in> set (columns R)"
    "distinct (map ln (columns L) @ map rn rc)"
    "columns M = map ln (columns L) @ map rn rc"
    "rows M = concat (map (joined_rows ln rn (columns L) rc l r (rows R)) (rows L))"
  using assms unfolding merge_left_def Let_def
  by (auto split: if_splits)

lemma select_Inr:
  assumes "select cs df = Inr R"
  shows "columns R = cs" and "distinct cs" and "set cs \<subseteq> set (columns df)"
    and "rows R = map (\<lambda>r. map (\<lambda>c. (c, lookup r c)) cs) (rows df)"
  using assms unfolding select_def
  by (auto split: list.splits if_splits simp: filter_empty_conv)

lemma lookup_selected:
  "c \<in> set cs \<Longrightarrow> lookup (map (\<lambda>c. (c, lookup r c)) cs) c = lookup r c"
  by (induction cs) (auto simp: lookup_def)



lemma upper_lower_char: "upper_char (lower_char c) = upper_char c"
  unfolding upper_char_def lower_char_def by simp

lemma upper_upper_char: "upper_char (upper_char c) = upper_char c"
  unfolding upper_char_def by simp

lemma upper_swapcase_char: "upper_char (swapcase_char c) = upper_char c"
  by (simp add: swapcase_char_def upper_lower_char upper_upper_char)

lemma upper_isspace: "isspace c \<Longrightarrow> upper_char c = c"
proof -
  assume "isspace c"
  then have "c = CHR 0x09 \<or> c = CHR 0x0A \<or> c = CHR 0x0B \<or> c = CHR 0x0C \<or> c = CHR 0x0D \<or>
             c = CHR 0x1C \<or> c = CHR 0x1D \<or> c = CHR 0x1E \<or> c = CHR 0x1F \<or> c = CHR 0x20"
    by (simp add: isspace_def)
  then show ?thesis
    by (elim disjE) (simp_all add: upper_char_def)
qed

lemma str_upper_blank: "list_all isspace p \<Longrightarrow> str_upper p = p"
  by (induction p) (simp_all add: str_upper_def upper_isspace)

lemma str_upper_recase: "str_upper (recase flips s) = str_upper s"
  by (induction flips s rule: recase.induct) (simp_all add: str_upper_def upper_swapcase_char)

lemma str_upper_append: "str_upper (s @ t) = str_upper s @ str_upper t"
  by (simp add: str_upper_def)

lemma dropWhile_blank_append:
  assumes "list_all isspace q"
  shows "dropWhile isspace (rev (t @ q)) = dropWhile isspace (rev t)"
proof -
  have "\<And>x. x \<in> set (rev q) \<Longrightarrow> isspace x" using assms by (simp add: list_all_iff)
  then have "dropWhile isspace (rev q @ rev t) = dropWhile isspace (rev t)"
    by (rule dropWhile_append2)
  then show ?thesis by simp
qed

lemma str_strip_padding:
  assumes "list_all isspace p" and "list_all isspace q"
  shows "str_strip (p @ t @ q) = str_strip t"
proof -
  have p: "\<And>x. x \<in> set p \<Longrightarrow> isspace x" using assms(1) by (simp add: list_all_iff)
  have q: "\<And>x. x \<in> set q \<Longrightarrow> isspace x" using assms(2) by (simp add: list_all_iff)
  have 1: "dropWhile isspace (p @ t @ q) = dropWhile isspace (t @ q)"
    using p by simp
  show ?thesis
  proof (cases "\<forall>x\<in>set t. isspace x")
    case True
    then have "dropWhile isspace (t @ q) = []" and "dropWhile isspace t = []" using q by auto
    then show ?thesis unfolding str_strip_def 1 by (simp only:)
  next
    case False
    then have "dropWhile isspace (t @ q) = dropWhile isspace t @ q"
      by (auto simp: dropWhile_append)
    with 1 have "str_strip (p @ t @ q) = rev (dropWhile isspace (rev (dropWhile isspace t @ q)))"
      by (simp add: str_strip_def)
    also have "\<dots> = rev (dropWhile isspace (rev (dropWhile isspace t)))"
      using dropWhile_blank_append [OF assms(2)] by simp
    finally show ?thesis by (simp add: str_strip_def)
  qed
qed

lemma normalize_edit_code:
  assumes "blank_padding e"
  shows "normalize_code (edit_code e v) = normalize_code v"
proof (cases e)
  case (fields p flips q)
  with assms have pq: "list_all isspace p" "list_all isspace q" by (simp_all add: blank_padding_def)
  show ?thesis
  proof (cases v)
    case (Str s)
    have "str_upper (p @ recase flips s @ q) = p @ str_upper s @ q"
      using pq by (simp add: str_upper_append str_upper_blank str_upper_recase)
    then show ?thesis using Str fields pq
      by (simp add: normalize_code_def edit_code_def astype_str_def str_strip_padding)
  qed (simp_all add: edit_code_def fields)
qed

lemma clean_edit_rows:
  "list_all blank_padding es \<Longrightarrow>
   map (\<lambda>r. AList.update c (normalize_code (lookup r c)) r) (edit_rows c es rs) =
   map (\<lambda>r. AList.update c (normalize_code (lookup r c)) r) rs"
  by (induction c es rs rule: edit_rows.induct)
     (simp_all add: lookup_update normalize_edit_code)

lemma columns_edit_codes [simp]: "columns (edit_codes c es df) = columns df"
  by (simp add: edit_codes_def)

lemma clean_edit_codes:
  "list_all blank_padding es \<Longrightarrow> clean_codes c (edit_codes c es df) = clean_codes c df"
  by (simp add: clean_codes_def edit_codes_def clean_edit_rows)

lemma draw_read_csv:
  "draw (env\<lparr>read_csv := x\<rparr>) a merged c cm = draw env a merged c cm"
  by (simp add: draw_def label_topn_def save_figure_def cong: if_cong)

lemma colour_read_csv:
  "colour (env\<lparr>read_csv := x\<rparr>) a merged = colour env a merged"
  by (simp add: colour_def draw_read_csv Let_def cong: if_cong sum.case_cong option.case_cong)

lemma project_and_draw_read_csv:
  "project_and_draw (env\<lparr>read_csv := x\<rparr>) a merged = project_and_draw env a merged"
  by (simp add: project_and_draw_def colour_read_csv cong: sum.case_cong prod.case_cong)

lemma main_edit_codes:
  assumes "list_all blank_padding es"
  shows "main (env\<lparr>read_csv := Inr (edit_codes (args_code_col a) es df)\<rparr>) a =
         main (env\<lparr>read_csv := Inr df\<rparr>) a"
  unfolding main_def
  by (simp add: clean_edit_codes [OF assms] project_and_draw_read_csv Let_def
        cong: if_cong sum.case_cong)

lemma generate_map_edit_codes:
  assumes "list_all blank_padding es"
  shows "fst (generate_map env (edit_codes code_col es df) output_path cm value_col code_col) =
         fst (generate_map env df output_path cm value_col code_col)"
  unfolding generate_map_def
  by (simp add: clean_edit_codes [OF assms])


lemma left_join_selected:
  assumes sel: "select cs df = Inr R" and ml: "merge_left world R key code_col = Inr merged"
    and cc: "code_col \<in> set cs" and vcs: "value_col \<in> set cs" and ne: "value_col \<noteq> code_col"
    and vc: "value_col \<notin> set (columns world)"
    and k: "key = code_col \<or> key \<notin> set cs"
  shows "left_join_of world df key code_col value_col merged"
proof -
  note R = select_Inr [OF sel]
  from ml obtain rc ln rn where
    rc: "rc = (if key = code_col then removeAll code_col (columns R) else columns R)"
    and ln: "ln = (\<lambda>c. if c \<in> set rc \<and> c \<in> set (columns world) then c @ ''_x'' else c)"
    and rn: "rn = (\<lambda>c. if c \<in> set rc \<and> c \<in> set (columns world) then c @ ''_y'' else c)"
    and key: "key \<in> set (columns world)"
    and dist: "distinct (map ln (columns world) @ map rn rc)"
    and rows: "rows merged =
         concat (map (joined_rows ln rn (columns world) rc key code_col (rows R)) (rows world))"
    by (rule merge_left_Inr)
  have vrc: "value_col \<in> set rc" using R(1) rc vcs ne by auto
  have krc: "key \<notin> set rc" using R(1) rc k by auto
  have lnk: "ln key = key" using krc ln by simp
  have rnv: "rn value_col = value_col" using vc rn by simp
  have codes: "(\<lambda>v. lookup v code_col) ` set (rows R) = (\<lambda>v. lookup v code_col) ` set (rows df)"
    using R(4) lookup_selected [OF cc] by (auto simp: image_iff)
  have from_left: "\<exists>g\<in>set (rows world).
      m \<in> set (joined_rows ln rn (columns world) rc key code_col (rows R) g)"
    if "m \<in> set (rows merged)" for m
    using that rows by auto
  have key_cell: "lookup m key = lookup g key"
    if "m \<in> set (joined_rows ln rn (columns world) rc key code_col (rows R) g)" for m g
    using joined_rows_cases [OF that] lookup_left_part [OF dist key] lnk by auto
  have 1: "\<forall>g\<in>set (rows world). \<exists>m\<in>set (rows merged).
          map snd (take (length (columns world)) m) = map (lookup g) (columns world)"
  proof
    fix g assume g: "g \<in> set (rows world)"
    let ?J = "joined_rows ln rn (columns world) rc key code_col (rows R) g"
    have "length ?J \<noteq> 0" by (simp add: length_joined_rows)
    then obtain m where m: "m \<in> set ?J" by (cases ?J) auto
    then have "m \<in> set (rows merged)" using g rows by auto
    moreover have "map snd (take (length (columns world)) m) = map (lookup g) (columns world)"
      using m by (rule joined_rows_left)
    ultimately show "\<exists>m\<in>set (rows merged).
          map snd (take (length (columns world)) m) = map (lookup g) (columns world)" by blast
  qed
  have 2: "\<forall>m\<in>set (rows merged). \<exists>g\<in>set (rows world).
          map snd (take (length (columns world)) m) = map (lookup g) (columns world)
          \<and> lookup m key = lookup g key"
  proof
    fix m assume "m \<in> set (rows merged)"
    then obtain g where g: "g \<in> set (rows world)"
      and m: "m \<in> set (joined_rows ln rn (columns world) rc key code_col (rows R) g)"
      using from_left by blast
    from m have "map snd (take (length (columns world)) m) = map (lookup g) (columns world)"
      by (rule joined_rows_left)
    with g key_cell [OF m] show "\<exists>g\<in>set (rows world).
          map snd (take (length (columns world)) m) = map (lookup g) (columns world)
          \<and> lookup m key = lookup g key" by blast
  qed
  have 3: "\<forall>m\<in>set (rows merged).
          if \<exists>v\<in>set (rows df). lookup v code_col = lookup m key
          then \<exists>v\<in>set (rows df).
                 lookup v code_col = lookup m key \<and> lookup m value_col = lookup v value_col
          else lookup m value_col = Null"
  proof
    fix m assume "m \<in> set (rows merged)"
    then obtain g where g: "g \<in> set (rows world)"
      and m: "m \<in> set (joined_rows ln rn (columns world) rc key code_col (rows R) g)"
      using from_left by blast
    note mk = key_cell [OF m]
    from joined_rows_cases [OF m]
    show "if \<exists>v\<in>set (rows df). lookup v code_col = lookup m key
          then \<exists>v\<in>set (rows df).
                 lookup v code_col = lookup m key \<and> lookup m value_col = lookup v value_col
          else lookup m value_col = Null"
    proof (elim disjE conjE bexE)
      assume m': "m = map (\<lambda>c. (ln c, lookup g c)) (columns world) @ map (\<lambda>c. (rn c, Null)) rc"
        and none: "\<forall>v\<in>set (rows R). lookup v code_col \<noteq> lookup g key"
      from m' have "lookup m (rn value_col) = Null"
        using lookup_right_part [OF dist vrc] by simp
      then have null: "lookup m value_col = Null" using rnv by simp
      from none codes have "\<not> (\<exists>v\<in>set (rows df). lookup v code_col = lookup g key)"
        by (metis (mono_tags, lifting) image_iff)
      with null mk show ?thesis by simp
    next
      fix v assume v: "v \<in> set (rows R)" and eq: "lookup v code_col = lookup g key"
        and m': "m = map (\<lambda>c. (ln c, lookup g c)) (columns world) @ map (\<lambda>c. (rn c, lookup v c)) rc"
      from m' have "lookup m (rn value_col) = lookup v value_col"
        using lookup_right_part [OF dist vrc] by simp
      then have val: "lookup m value_col = lookup v value_col" using rnv by simp
      from v R(4) obtain r where r: "r \<in> set (rows df)"
        and vr: "v = map (\<lambda>c. (c, lookup r c)) cs" by auto
      have "lookup v code_col = lookup r code_col" "lookup v value_col = lookup r value_col"
        using vr lookup_selected [OF cc] lookup_selected [OF vcs] by simp_all
      with val eq mk r show ?thesis by auto
    qed
  qed
  from 1 2 3 show ?thesis unfolding left_join_of_def by blast
qed

lemma merge_iso_left_join:
  assumes "merge_iso world df code_col value_col name_col = Inr merged"
    and "value_col \<notin> set (columns world)" and "name_col \<noteq> Some ''iso_a3''"
  shows "left_join_of world df ''iso_a3'' code_col value_col merged"
proof -
  from assms(1) obtain R where sel: "select (join_columns code_col value_col name_col) df = Inr R"
    and ml: "merge_left world R ''iso_a3'' code_col = Inr merged"
    by (auto simp: merge_iso_def and_then_def split: sum.splits)
  from ml have key: "''iso_a3'' \<in> set (columns world)" by (rule merge_left_Inr)
  from select_Inr(2) [OF sel] have ne: "value_col \<noteq> code_col" by (auto simp: join_columns_def)
  have k: "''iso_a3'' = code_col \<or> ''iso_a3'' \<notin> set (join_columns code_col value_col name_col)"
    using assms(2,3) key by (auto simp: join_columns_def split: option.splits)
  show ?thesis
    by (rule left_join_selected [OF sel ml _ _ ne assms(2) k]) (simp_all add: join_columns_def)
qed

lemma merge_sov_left_join:
  assumes "merge_sov world df code_col value_col = Inr merged"
    and "value_col \<notin> set (columns world)"
  shows "left_join_of world df CODE_COLUMN code_col value_col merged"
proof -
  from assms(1) obtain R where sel: "select [code_col, value_col] df = Inr R"
    and ml: "merge_left world R CODE_COLUMN code_col = Inr merged"
    by (auto simp: merge_sov_def and_then_def split: sum.splits)
  from ml have key: "CODE_COLUMN \<in> set (columns world)" by (rule merge_left_Inr)
  from select_Inr(2) [OF sel] have ne: "value_col \<noteq> code_col" by auto
  have k: "CODE_COLUMN = code_col \<or> CODE_COLUMN \<notin> set [code_col, value_col]"
    using assms(2) key by auto
  show ?thesis
    by (rule left_join_selected [OF sel ml _ _ ne assms(2) k]) simp_all
qed

lemma length_merge_left_select:
  assumes sel: "select cs df = Inr R" and ml: "merge_left world R key code_col = Inr merged"
    and cc: "code_col \<in> set cs"
  shows "length (rows merged) =
     sum_list (map (\<lambda>g. max 1 (length (filter (\<lambda>v. lookup v code_col = lookup g key) (rows df))))
                (rows world))"
proof -
  note R = select_Inr [OF sel]
  from ml obtain rc ln rn where
    rows: "rows merged =
         concat (map (joined_rows ln rn (columns world) rc key code_col (rows R)) (rows world))"
    by (rule merge_left_Inr)
  have "length (filter (\<lambda>v. lookup v code_col = c) (rows R)) =
        length (filter (\<lambda>v. lookup v code_col = c) (rows df))" for c
    unfolding R(4) filter_map length_map comp_def
    using lookup_selected [OF cc] by simp
  then show ?thesis
    unfolding rows length_concat map_map comp_def length_joined_rows by simp
qed


lemma emit_Nil [simp]: "emit [] r = r"
  by (simp add: emit_def)

lemma status_emit [simp]: "status (emit evs r) = status r"
  by (simp add: emit_def)

lemma projections_get_key:
  "name \<in> set (map fst PROJECTIONS) \<Longrightarrow> Some (projections_get name d) = map_of PROJECTIONS name"
  unfolding projections_get_def
  by (cases "map_of PROJECTIONS name") (auto simp: map_of_eq_None_iff)

lemma used_projection: "map_of PROJECTIONS USED_PROJECTION = Some ''EPSG:4326''"
  by (simp add: PROJECTIONS_def USED_PROJECTION_def)

lemma plate_carree: "projections_item ''PlateCarree'' = Inr ''EPSG:4326''"
  by (simp add: projections_item_def PROJECTIONS_def)

lemma classify_values_call:
  "classify_values series scheme k = Some c \<Longrightarrow>
     fitted_on c = series \<and> (requested_k c = Some k \<or> c = StdMean series)"
  by (auto simp: classify_values_def Let_def fitted_on_def requested_k_def split: if_splits)

lemma col_Inr: "c \<in> set (columns df) \<Longrightarrow> col df c = Inr (map (\<lambda>r. lookup r c) (rows df))"
  by (simp add: col_def)

lemma columns_clean_codes [simp]: "columns (clean_codes c df) = columns df"
  by (simp add: clean_codes_def)

lemma cleaned_code_is_Str:
  "r \<in> set (rows (clean_codes c df)) \<Longrightarrow> \<exists>s. lookup r c = Str s"
  by (auto simp: clean_codes_def lookup_update normalize_code_def)

lemma matched_set:
  "set (map snd (filter (\<lambda>(v, k). \<not> isna v) (zip (map f ms) (map h ms)))) =
   {h m | m. m \<in> set ms \<and> \<not> isna (f m)}"
  by (induction ms) auto

lemma missing_codes_Inr:
  assumes "code_col \<in> set (columns df)" "value_col \<in> set (columns merged)"
    "key \<in> set (columns merged)"
  shows "missing_codes df merged code_col value_col key =
     Inr (sort (map astype_str
            (filter (\<lambda>c. c \<notin> {lookup m key | m. m \<in> set (rows merged) \<and> \<not> isna (lookup m value_col)})
               (remdups (map (\<lambda>r. lookup r code_col) (rows df))))))"
  using assms
  by (simp only: missing_codes_def provided_codes_def matched_codes_def col_Inr and_then_Inr
        set_remdups matched_set)

lemma warn_unmatched_set:
  "warn_unmatched xs = (if set xs = {} then [] else [Warn_unmatched (length xs) xs])"
  by (simp add: warn_unmatched_def)

lemma unmatched_codes_spec:
  assumes "code_col \<in> set (columns df0)" and "value_col \<in> set (columns merged)"
    and "key \<in> set (columns merged)"
  shows "\<exists>missing.
     missing_codes (clean_codes code_col df0) merged code_col value_col key = Inr missing
     \<and> set missing = unmatched_codes (clean_codes code_col df0) merged code_col value_col key
     \<and> sorted missing \<and> distinct missing"
proof -
  let ?df = "clean_codes code_col df0"
  let ?matched = "{lookup m key | m. m \<in> set (rows merged) \<and> \<not> isna (lookup m value_col)}"
  let ?left = "filter (\<lambda>c. c \<notin> ?matched) (remdups (map (\<lambda>r. lookup r code_col) (rows ?df)))"
  let ?missing = "sort (map astype_str ?left)"
  have eq: "missing_codes ?df merged code_col value_col key = Inr ?missing"
    using assms by (intro missing_codes_Inr) simp_all
  have strs: "\<forall>c\<in>set ?left. \<exists>s. c = Str s"
    using cleaned_code_is_Str [of _ code_col df0] by auto
  have inj: "inj_on astype_str (set ?left)"
  proof (rule inj_onI)
    fix x y assume "x \<in> set ?left" "y \<in> set ?left" and eq: "astype_str x = astype_str y"
    with strs obtain s t where "x = Str s" "y = Str t" by blast
    with eq show "x = y" by (simp add: astype_str_def)
  qed
  have dist: "distinct ?missing"
    using inj by (simp add: distinct_map)
  have set_eq: "set ?missing = unmatched_codes ?df merged code_col value_col key"
    unfolding unmatched_codes_def
  proof (intro set_eqI iffI)
    fix s assume "s \<in> set ?missing"
    then obtain c where c: "c \<in> set ?left" and s: "s = astype_str c" by auto
    from strs c obtain t where "c = Str t" by blast
    with s have "c = Str s" by (simp add: astype_str_def)
    with c show "s \<in> {s. Str s \<in> (\<lambda>r. lookup r code_col) ` set (rows ?df) \<and>
            (\<forall>m\<in>set (rows merged). lookup m key = Str s \<longrightarrow> isna (lookup m value_col))}"
      by auto
  next
    fix s assume "s \<in> {s. Str s \<in> (\<lambda>r. lookup r code_col) ` set (rows ?df) \<and>
            (\<forall>m\<in>set (rows merged). lookup m key = Str s \<longrightarrow> isna (lookup m value_col))}"
    then have "Str s \<in> set ?left" by auto
    then have "astype_str (Str s) \<in> set ?missing" by (simp add: image_iff) blast
    then show "s \<in> set ?missing" by (simp add: astype_str_def)
  qed
  from eq set_eq dist show ?thesis
    by (intro exI [of _ ?missing] conjI) simp_all
qed

lemma main_after_merge:
  assumes "args_projection a \<in> set (map fst PROJECTIONS)" and "read_csv env = Inr df0"
    and "args_code_col a \<in> set (columns df0)" and "args_value_col a \<in> set (columns df0)"
    and "load_world (read_file env) = Inr world"
    and "merge_iso world (clean_codes (args_code_col a) df0) (args_code_col a) (args_value_col a)
           (args_name_col a) = Inr merged"
    and "missing_codes (clean_codes (args_code_col a) df0) merged (args_code_col a)
           (args_value_col a) ''iso_a3'' = Inr missing"
  shows "main env a = emit (warn_unmatched missing) (project_and_draw env a merged)"
  using assms by (simp add: main_def)

lemma generate_map_after_merge:
  assumes "code_col \<in> set (columns dataframe)" and "value_col \<in> set (columns dataframe)"
    and "load_world_sov (read_file env) = Inr world"
    and "merge_sov world (clean_codes code_col dataframe) code_col value_col = Inr merged"
    and "missing_codes (clean_codes code_col dataframe) merged code_col value_col CODE_COLUMN =
           Inr missing"
  shows "fst (generate_map env dataframe output_path cm value_col code_col) =
         emit (warn_unmatched missing)
           (project_and_draw_map env merged cm
              (case output_path of None \<Rightarrow> default_output_path | Some p \<Rightarrow> p))"
  using assms by (simp add: generate_map_def)

lemma sample_load_world:
  "load_world (Inr sample_world) =
     Inr \<lparr>columns = [''name'', ''iso_a3''],
          rows = [[(''name'', Str ''France''), (''iso_a3'', Str ''FRA'')],
                  [(''name'', Str ''Chad''), (''iso_a3'', Str ''TCD'')],
                  [(''name'', Str ''Norway''), (''iso_a3'', Str ''NOR'')]]\<rparr>"
  by code_simp

lemma sample_merge_iso:
  "and_then (load_world (Inr sample_world)) (\<lambda>world.
     merge_iso world (clean_codes ''iso_a3'' sample_values) ''iso_a3'' ''value'' None) =
   Inr sample_merged"
  by code_simp

lemma sample_merge_sov:
  "and_then (load_world_sov (Inr sample_world_sov)) (\<lambda>world.
     merge_sov world (clean_codes ''sov_a3'' sample_values_sov) ''sov_a3'' ''value'') =
   Inr sample_merged_sov"
  by code_simp

lemma sample_args_projection:
  "args_projection (default_args data out) \<in> set (map fst PROJECTIONS)"
  by (simp add: default_args_def PROJECTIONS_def)

lemma sample_load_world_sov:
  "load_world_sov (Inr sample_world_sov) =
     Inr \<lparr>columns = [''SOVEREIGNT'', ''SOV_A3'', ''sov_a3''],
          rows = [[(''SOVEREIGNT'', Str ''France''), (''SOV_A3'', Str ''FR1''),
                   (''sov_a3'', Str ''FRA'')],
                  [(''SOVEREIGNT'', Str ''Chad''), (''SOV_A3'', Str ''TCD''),
                   (''sov_a3'', Null)]]\<rparr>"
  by code_simp

lemma load_world_corrections:
  assumes "load_world (Inr w) = Inr w'" and "''iso_a3'' \<in> set (columns w)"
  shows "columns w' = columns w \<and> length (rows w') = length (rows w) \<and>
    (\<forall>i<length (rows w). \<forall>c.
       lookup (rows w' ! i) c =
         (if c = ''iso_a3'' then
            (if lookup (rows w ! i) ''name'' = Str ''Somaliland'' then Str ''SOL''
             else if lookup (rows w ! i) ''name'' = Str ''Norway'' then Str ''NOR''
             else if lookup (rows w ! i) ''name'' = Str ''France'' then Str ''FRA''
             else lookup (rows w ! i) ''iso_a3'')
          else lookup (rows w ! i) c))"
  using assms
  by (auto simp: load_world_def loc_assign_def lookup_update split: if_splits)

lemma load_world_sov_keeps_code_column:
  assumes "load_world_sov (Inr w) = Inr w'"
  shows "map (\<lambda>r. lookup r CODE_COLUMN) (rows w') = map (\<lambda>r. lookup r CODE_COLUMN) (rows w)"
  using assms
  by (auto simp: load_world_sov_def loc_assign_def lookup_update CODE_COLUMN_def split: if_splits)

lemma draw_missing_color:
  "Plot call m \<in> set (events (draw env a merged c cm)) \<Longrightarrow>
     missing_kwds call = Some (args_missing_color a, args_edge_color a)"
  by (auto simp: draw_def emit_def raised_def plot_kwargs_def label_topn_def save_figure_def
        exited_def split: if_splits option.splits)

lemma fill_of_plot_kwargs:
  "fill_of (plot_kwargs a c cm) r =
     (if isna (lookup r c) then Colour (args_missing_color a) else From_cmap (fst cm) (lookup r c))"
  by (simp add: fill_of_def plot_kwargs_def)

lemma default_missing_color: "args_missing_color (default_args data out) = ''#EEEEEE''"
  by (simp add: default_args_def)

lemma merged_pair_selected:
  assumes sel: "select cs df = Inr R" and ml: "merge_left world R key code_col = Inr merged"
    and cc: "code_col \<in> set cs" and vcs: "value_col \<in> set cs" and ne: "value_col \<noteq> code_col"
    and vc: "value_col \<notin> set (columns world)"
    and g: "g \<in> set (rows world)" and v: "v \<in> set (rows df)"
    and eq: "lookup v code_col = lookup g key"
  shows "\<exists>m\<in>set (rows merged).
           map snd (take (length (columns world)) m) = map (lookup g) (columns world) \<and>
           lookup m value_col = lookup v value_col"
proof -
  note R = select_Inr [OF sel]
  from ml obtain rc ln rn where
    rc: "rc = (if key = code_col then removeAll code_col (columns R) else columns R)"
    and rn: "rn = (\<lambda>c. if c \<in> set rc \<and> c \<in> set (columns world) then c @ ''_y'' else c)"
    and dist: "distinct (map ln (columns world) @ map rn rc)"
    and rows: "rows merged =
         concat (map (joined_rows ln rn (columns world) rc key code_col (rows R)) (rows world))"
    by (rule merge_left_Inr)
  have vrc: "value_col \<in> set rc" using R(1) rc vcs ne by auto
  have rnv: "rn value_col = value_col" using vc rn by simp
  let ?v = "map (\<lambda>c. (c, lookup v c)) cs"
  let ?m = "map (\<lambda>c. (ln c, lookup g c)) (columns world) @ map (\<lambda>c. (rn c, lookup ?v c)) rc"
  have "?v \<in> set (rows R)" using v R(4) by force
  moreover have "lookup ?v code_col = lookup g key" using eq lookup_selected [OF cc] by simp
  ultimately have "?m \<in> set (joined_rows ln rn (columns world) rc key code_col (rows R) g)"
    by (rule joined_rows_match)
  then have in_merged: "?m \<in> set (rows merged)" using g rows by auto
  have "lookup ?m (rn value_col) = lookup ?v value_col"
    using lookup_right_part [OF dist vrc] by simp
  then have "lookup ?m value_col = lookup v value_col"
    using rnv lookup_selected [OF vcs] by simp
  moreover have "map snd (take (length (columns world)) ?m) = map (lookup g) (columns world)"
    by (simp add: comp_def)
  ultimately show ?thesis using in_merged by blast
qed

lemma isl_merge_iso_rows:
  "isl (merge_iso world (df\<lparr>rows := rs\<rparr>) code_col value_col name_col) =
   isl (merge_iso world df code_col value_col name_col)"
  by (simp add: merge_iso_def select_def merge_left_def and_then_def Let_def split: list.splits)

lemma isl_merge_sov_rows:
  "isl (merge_sov world (df\<lparr>rows := rs\<rparr>) code_col value_col) =
   isl (merge_sov world df code_col value_col)"
  by (simp add: merge_sov_def select_def merge_left_def and_then_def Let_def split: list.splits)

lemma merge_iso_select:
  assumes "merge_iso world df code_col value_col name_col = Inr merged"
  obtains R where "select (join_columns code_col value_col name_col) df = Inr R"
    and "merge_left world R ''iso_a3'' code_col = Inr merged"
    and "code_col \<in> set (join_columns code_col value_col name_col)"
    and "value_col \<in> set (join_columns code_col value_col name_col)"
    and "value_col \<noteq> code_col"
proof -
  from assms obtain R where sel: "select (join_columns code_col value_col name_col) df = Inr R"
    and ml: "merge_left world R ''iso_a3'' code_col = Inr merged"
    by (auto simp: merge_iso_def and_then_def split: sum.splits)
  from select_Inr(2) [OF sel] have "value_col \<noteq> code_col" by (auto simp: join_columns_def)
  with sel ml that show ?thesis by (simp add: join_columns_def)
qed

lemma merge_sov_select:
  assumes "merge_sov world df code_col value_col = Inr merged"
  obtains R where "select [code_col, value_col] df = Inr R"
    and "merge_left world R CODE_COLUMN code_col = Inr merged"
    and "value_col \<noteq> code_col"
proof -
  from assms obtain R where sel: "select [code_col, value_col] df = Inr R"
    and ml: "merge_left world R CODE_COLUMN code_col = Inr merged"
    by (auto simp: merge_sov_def and_then_def split: sum.splits)
  from select_Inr(2) [OF sel] have "value_col \<noteq> code_col" by auto
  with sel ml that show ?thesis by simp
qed

lemma sample_merge_iso_loaded:
  "merge_iso sample_world_loaded (clean_codes ''iso_a3'' sample_values) ''iso_a3'' ''value'' None =
   Inr sample_merged"
  by code_simp

lemma sample_merge_sov_loaded:
  "merge_sov sample_world_sov_loaded (clean_codes ''sov_a3'' sample_values_sov) ''sov_a3'' ''value'' =
   Inr sample_merged_sov"
  by code_simp

section \<open>The claims\<close>

text \<open>
  C1.  The merge of each script is a left join of the geometry table with the value table on
  the code column: \<open>iso_a3\<close> in \<open>color_world_map.py\<close>, \<open>SOV_A3\<close> in
  \<open>pain-to-map.py\<close>.  Every geometry row appears in the merged table, every merged row
  extends a geometry row, and a merged row whose key has no partner in the value table has
  a missing value in the value column.  The value column must not carry the label of a
  geometry column (pandas would rename both), and in \<open>color_world_map.py\<close> the name
  column must not be \<open>iso_a3\<close>; the scripts fail on such labels when they read the
  merged table.
\<close>

theorem merge_is_left_join:
  "(merge_iso world df code_col value_col name_col = Inr merged \<and>
    value_col \<notin> set (columns world) \<and> name_col \<noteq> Some ''iso_a3''
    \<longrightarrow> left_join_of world df ''iso_a3'' code_col value_col merged)
   \<and> (merge_sov world' df' code_col' value_col' = Inr merged' \<and>
      value_col' \<notin> set (columns world')
    \<longrightarrow> left_join_of world' df' CODE_COLUMN code_col' value_col' merged')"
  using merge_iso_left_join merge_sov_left_join by blast

theorem merge_is_left_join_witness:
  "\<exists>world world'.
     load_world (Inr sample_world) = Inr world \<and>
     merge_iso world (clean_codes ''iso_a3'' sample_values) ''iso_a3'' ''value'' None =
       Inr sample_merged \<and>
     left_join_of world (clean_codes ''iso_a3'' sample_values) ''iso_a3'' ''iso_a3'' ''value''
       sample_merged \<and>
     load_world_sov (Inr sample_world_sov) = Inr world' \<and>
     merge_sov world' (clean_codes ''sov_a3'' sample_values_sov) ''sov_a3'' ''value'' =
       Inr sample_merged_sov \<and>
     left_join_of world' (clean_codes ''sov_a3'' sample_values_sov) CODE_COLUMN ''sov_a3''
       ''value'' sample_merged_sov"
proof -
  obtain world where w: "load_world (Inr sample_world) = Inr world"
    and cw: "columns world = [''name'', ''iso_a3'']"
    using sample_load_world by simp
  obtain world' where w': "load_world_sov (Inr sample_world_sov) = Inr world'"
    and cw': "columns world' = [''SOVEREIGNT'', ''SOV_A3'', ''sov_a3'']"
    by (simp add: load_world_sov_def loc_assign_def sample_world_sov_def)
  have m: "merge_iso world (clean_codes ''iso_a3'' sample_values) ''iso_a3'' ''value'' None =
       Inr sample_merged"
    using sample_merge_iso w by simp
  have m': "merge_sov world' (clean_codes ''sov_a3'' sample_values_sov) ''sov_a3'' ''value'' =
       Inr sample_merged_sov"
    using sample_merge_sov w' by simp
  have v: "''value'' \<notin> set (columns world)" using cw by simp
  have v': "''value'' \<notin> set (columns world')" using cw' by simp
  show ?thesis
    using merge_is_left_join [of world "clean_codes ''iso_a3'' sample_values" "''iso_a3''"
        "''value''" None sample_merged world' "clean_codes ''sov_a3'' sample_values_sov"
        "''sov_a3''" "''value''" sample_merged_sov] w w' m m' v v'
    by blast
qed



text \<open>
  C10.  When the input table lacks the code column or the value column, \<open>main\<close> prints
  the message to stderr and exits with status 1, and \<open>generate_map\<close> prints it and
  returns \<open>None\<close>.  Nothing else happens in either run: whatever the libraries would
  answer, no geometry is loaded, nothing is plotted or saved, and the table passed to
  \<open>generate_map\<close> is returned as it was.
\<close>

theorem missing_column_stops:
  "(args_projection a \<in> set (map fst PROJECTIONS) \<and> read_csv env = Inr df \<and>
    (args_code_col a \<notin> set (columns df) \<or> args_value_col a \<notin> set (columns df))
    \<longrightarrow> main env a =
         \<lparr>events = [Stderr (columns_message (args_code_col a) (args_value_col a))],
          status = Exited 1\<rparr>)
   \<and> (code_col \<notin> set (columns dataframe) \<or> value_col \<notin> set (columns dataframe)
    \<longrightarrow> generate_map env' dataframe output_path cm value_col code_col =
         (\<lparr>events = [Stderr (columns_message code_col value_col)], status = Returned RNone\<rparr>,
          dataframe))"
  by (simp add: main_def generate_map_def exited_def)

theorem missing_column_stops_witness:
  "main sample_env ((default_args ''in.csv'' ''out.png'')\<lparr>args_value_col := ''pain''\<rparr>) =
     \<lparr>events = [Stderr (columns_message ''iso_a3'' ''pain'')], status = Exited 1\<rparr>
   \<and> generate_map sample_env_sov sample_values None ''Greys'' ''value'' ''sov_a3'' =
     (\<lparr>events = [Stderr (columns_message ''sov_a3'' ''value'')], status = Returned RNone\<rparr>,
      sample_values)"
proof -
  let ?a = "(default_args ''in.csv'' ''out.png'')\<lparr>args_value_col := ''pain''\<rparr>"
  have p: "args_projection ?a \<in> set (map fst PROJECTIONS)"
    using sample_args_projection [of "''in.csv''" "''out.png''"] by (simp add: default_args_def)
  have h: "read_csv sample_env = Inr sample_values"
    "args_value_col ?a \<notin> set (columns sample_values)"
    "''sov_a3'' \<notin> set (columns sample_values)"
    "args_code_col ?a = ''iso_a3''" "args_value_col ?a = ''pain''"
    by (simp_all add: sample_env_def sample_values_def default_args_def)
  show ?thesis
    using missing_column_stops [where a = ?a and env = sample_env and df = sample_values
        and code_col = "''sov_a3''" and dataframe = sample_values and value_col = "''value''"
        and env' = sample_env_sov and output_path = None and cm = "''Greys''"] p h
    by simp
qed

text \<open>
  C6.  The merged table is reprojected before it is drawn.  In \<open>color_world_map.py\<close>
  the target is the entry of the six-entry map \<open>PROJECTIONS\<close> under the name given by
  \<open>--projection\<close>; when that reprojection succeeds, its result is what is coloured and
  drawn.  In \<open>pain-to-map.py\<close> the target is the entry of \<open>USED_PROJECTION\<close>, which
  is \<open>EPSG:4326\<close>.
\<close>

theorem projection_target:
  "length PROJECTIONS = 6 \<and> distinct (map fst PROJECTIONS)
   \<and> (args_projection a \<in> set (map fst PROJECTIONS) \<and>
      to_crs env (map_of PROJECTIONS (args_projection a)) merged = Inr projected
      \<longrightarrow> project_and_draw env a merged = colour env a projected)
   \<and> map_of PROJECTIONS USED_PROJECTION = Some ''EPSG:4326''
   \<and> (to_crs env' (Some ''EPSG:4326'') merged' = Inr projected'
      \<longrightarrow> project_and_draw_map env' merged' cm out = draw_map env' projected' cm out)"
proof (intro conjI impI)
  show "length PROJECTIONS = 6" by (simp add: PROJECTIONS_def)
  show "distinct (map fst PROJECTIONS)" by (simp add: PROJECTIONS_def)
  show "map_of PROJECTIONS USED_PROJECTION = Some ''EPSG:4326''" by (rule used_projection)
next
  assume h: "args_projection a \<in> set (map fst PROJECTIONS) \<and>
      to_crs env (map_of PROJECTIONS (args_projection a)) merged = Inr projected"
  then have "to_crs env (Some (projections_get (args_projection a) ''EPSG:4326'')) merged =
      Inr projected"
    by (simp add: projections_get_key)
  then show "project_and_draw env a merged = colour env a projected"
    by (simp add: project_and_draw_def reproject_def)
next
  assume "to_crs env' (Some ''EPSG:4326'') merged' = Inr projected'"
  then show "project_and_draw_map env' merged' cm out = draw_map env' projected' cm out"
    by (simp add: project_and_draw_map_def reproject_def used_projection)
qed

theorem projection_target_witness:
  "project_and_draw (sample_env\<lparr>to_crs := mollweide\<rparr>)
     ((default_args ''in.csv'' ''out.png'')\<lparr>args_projection := ''Mollweide''\<rparr>) sample_merged =
   colour (sample_env\<lparr>to_crs := mollweide\<rparr>)
     ((default_args ''in.csv'' ''out.png'')\<lparr>args_projection := ''Mollweide''\<rparr>)
     (sample_merged\<lparr>columns := columns sample_merged @ [''reprojected'']\<rparr>)
   \<and> project_and_draw_map sample_env_sov sample_merged_sov ''Greys'' default_output_path =
     draw_map sample_env_sov sample_merged_sov ''Greys'' default_output_path"
proof -
  let ?a = "(default_args ''in.csv'' ''out.png'')\<lparr>args_projection := ''Mollweide''\<rparr>"
  let ?env = "sample_env\<lparr>to_crs := mollweide\<rparr>"
  have 1: "args_projection ?a \<in> set (map fst PROJECTIONS)" by (simp add: PROJECTIONS_def)
  have 2: "to_crs ?env (map_of PROJECTIONS (args_projection ?a)) sample_merged =
      Inr (sample_merged\<lparr>columns := columns sample_merged @ [''reprojected'']\<rparr>)"
    by (simp add: PROJECTIONS_def mollweide_def)
  have 3: "to_crs sample_env_sov (Some ''EPSG:4326'') sample_merged_sov = Inr sample_merged_sov"
    by (simp add: sample_env_sov_def sample_env_def)
  show ?thesis
    using projection_target [where a = ?a and env = ?env and merged = sample_merged
        and projected = "sample_merged\<lparr>columns := columns sample_merged @ [''reprojected'']\<rparr>"
        and env' = sample_env_sov and merged' = sample_merged_sov
        and projected' = sample_merged_sov and cm = "''Greys''" and out = default_output_path]
      1 2 3
    by blast
qed

text \<open>
  C9, as stated, fails: the fallback reprojection stands outside the \<open>try\<close>, so an
  exception it raises ends the run.  For a table that no reprojection accepts both scripts
  warn and then end with the exception.
\<close>

theorem fallback_can_abort:
  "to_crs (sample_env\<lparr>to_crs := no_crs\<rparr>) (Some ''EPSG:4326'') sample_merged = Inl naive_geometries
   \<and> main (sample_env\<lparr>to_crs := no_crs\<rparr>) (default_args ''in.csv'' ''out.png'') =
     \<lparr>events = [Warn_unmatched 2 [''NOR'', ''XYZ''], Warn_projection ''Robinson'' naive_geometries],
      status = Raised naive_geometries\<rparr>
   \<and> fst (generate_map_default (sample_env_sov\<lparr>to_crs := no_crs\<rparr>) sample_values_sov) =
     \<lparr>events = [Warn_projection ''PlateCarree'' naive_geometries],
      status = Raised naive_geometries\<rparr>"
  by code_simp

text \<open>
  C9, amended.  When the reprojection to the selected target raises, \<open>main\<close> issues
  the warning and reprojects to \<open>EPSG:4326\<close>; it goes on to colour and draw when that
  succeeds and ends with the exception when it raises.  In \<open>generate_map\<close> the selected
  target is \<open>EPSG:4326\<close> already, so the fallback repeats the call that raised: the
  run issues the warning and ends with the exception.
\<close>

theorem fallback_reprojection:
  "(to_crs env (Some (projections_get (args_projection a) ''EPSG:4326'')) merged = Inl e
    \<longrightarrow> project_and_draw env a merged =
        emit [Warn_projection (args_projection a) e]
          (case to_crs env (Some ''EPSG:4326'') merged of
             Inl e' \<Rightarrow> raised e'
           | Inr projected \<Rightarrow> colour env a projected))
   \<and> (to_crs env' (Some ''EPSG:4326'') merged' = Inl e'
    \<longrightarrow> project_and_draw_map env' merged' cm out =
        emit [Warn_projection USED_PROJECTION e'] (raised e'))"
proof (intro conjI impI)
  assume "to_crs env (Some (projections_get (args_projection a) ''EPSG:4326'')) merged = Inl e"
  then show "project_and_draw env a merged =
        emit [Warn_projection (args_projection a) e]
          (case to_crs env (Some ''EPSG:4326'') merged of
             Inl e' \<Rightarrow> raised e'
           | Inr projected \<Rightarrow> colour env a projected)"
    by (simp add: project_and_draw_def reproject_def plate_carree split: sum.splits)
next
  assume "to_crs env' (Some ''EPSG:4326'') merged' = Inl e'"
  then show "project_and_draw_map env' merged' cm out =
        emit [Warn_projection USED_PROJECTION e'] (raised e')"
    by (simp add: project_and_draw_map_def reproject_def plate_carree used_projection)
qed

theorem fallback_reprojection_witness:
  "project_and_draw (sample_env\<lparr>to_crs := robinson_fails\<rparr>) (default_args ''in.csv'' ''out.png'')
     sample_merged =
   emit [Warn_projection ''Robinson'' naive_geometries]
     (colour (sample_env\<lparr>to_crs := robinson_fails\<rparr>) (default_args ''in.csv'' ''out.png'')
        sample_merged)
   \<and> project_and_draw_map (sample_env_sov\<lparr>to_crs := no_crs\<rparr>) sample_merged_sov ''Greys''
       default_output_path =
     emit [Warn_projection ''PlateCarree'' naive_geometries] (raised naive_geometries)"
proof -
  let ?a = "default_args ''in.csv'' ''out.png''"
  let ?env = "sample_env\<lparr>to_crs := robinson_fails\<rparr>"
  let ?env' = "sample_env_sov\<lparr>to_crs := no_crs\<rparr>"
  have 1: "to_crs ?env (Some (projections_get (args_projection ?a) ''EPSG:4326'')) sample_merged =
      Inl naive_geometries"
    by (simp add: robinson_fails_def projections_get_def PROJECTIONS_def default_args_def)
  have 2: "to_crs ?env (Some ''EPSG:4326'') sample_merged = Inr sample_merged"
    by (simp add: robinson_fails_def)
  have 3: "to_crs ?env' (Some ''EPSG:4326'') sample_merged_sov = Inl naive_geometries"
    by (simp add: no_crs_def)
  have 4: "args_projection ?a = ''Robinson''" by (simp add: default_args_def)
  show ?thesis
    using fallback_reprojection [where a = ?a and env = ?env and merged = sample_merged
        and e = naive_geometries and env' = ?env' and merged' = sample_merged_sov
        and e' = naive_geometries and cm = "''Greys''" and out = default_output_path]
      1 2 3 4
    by (simp add: USED_PROJECTION_def)
qed




text \<open>
  C3, on \<open>pain-to-map.py\<close>.  \<open>_load_world\<close> writes the three codes to the column
  \<open>sov_a3\<close>, which the data set does not have: pandas adds it.  The join key of the
  script is \<open>SOV_A3\<close>, and that column keeps the codes of the data set, \<open>FR1\<close> for
  France here.
\<close>

theorem load_world_sov_misses_join_key:
  "load_world_sov (Inr sample_world_sov) =
     Inr \<lparr>columns = [''SOVEREIGNT'', ''SOV_A3'', ''sov_a3''],
          rows = [[(''SOVEREIGNT'', Str ''France''), (''SOV_A3'', Str ''FR1''),
                   (''sov_a3'', Str ''FRA'')],
                  [(''SOVEREIGNT'', Str ''Chad''), (''SOV_A3'', Str ''TCD''),
                   (''sov_a3'', Null)]]\<rparr>
   \<and> CODE_COLUMN = ''SOV_A3''"
  by code_simp

text \<open>
  C5, on \<open>pain-to-map.py\<close>.  The call that draws the table passes no
  \<open>missing_kwds\<close>: the row of France, which has no value, is not drawn at all, and the
  missing colour \<open>#EEEEEE\<close> is not used.
\<close>

theorem generate_map_drops_missing_color:
  "events (fst (generate_map_default sample_env_sov sample_values_sov)) =
     [Plot \<lparr>column = ''value'', cmap = (''Greys'', None), edgecolor = None,
            missing_kwds = None, legend = None\<rparr> sample_merged_sov,
      Title ''TODO Title'', Saved ''../data/world.png'']
   \<and> map (fill_of \<lparr>column = ''value'', cmap = (''Greys'', None), edgecolor = None,
                   missing_kwds = None, legend = None\<rparr>) (rows sample_merged_sov) =
     [Not_drawn, From_cmap ''Greys'' (Num 5), From_cmap ''Greys'' (Num 6)]
   \<and> missing_kwds_sov = (''#EEEEEE'', ''#00FF37'')"
  by code_simp

text \<open>
  C7.  Neither script looks at the rows of the value table before or while it joins:
  whether the merge step raises depends on the column labels only, so a table with a code
  on several rows is accepted like any other.  The merged table has, for each geometry row,
  one row per value row with the same code, and one row when there is none; each pair of a
  geometry row and a value row with its code is found in the merged table, with the cells
  of the one and the value of the other.
\<close>

theorem duplicate_codes_joined:
  "isl (merge_iso world (df\<lparr>rows := rs\<rparr>) code_col value_col name_col) =
     isl (merge_iso world df code_col value_col name_col)
   \<and> isl (merge_sov world (df\<lparr>rows := rs\<rparr>) code_col value_col) =
     isl (merge_sov world df code_col value_col)
   \<and> (merge_iso world df code_col value_col name_col = Inr merged
      \<longrightarrow> length (rows merged) =
            sum_list (map (\<lambda>g. max 1 (length (filter
                 (\<lambda>v. lookup v code_col = lookup g ''iso_a3'') (rows df)))) (rows world))
          \<and> (value_col \<notin> set (columns world)
             \<longrightarrow> (\<forall>g\<in>set (rows world). \<forall>v\<in>set (rows df).
                    lookup v code_col = lookup g ''iso_a3''
                    \<longrightarrow> (\<exists>m\<in>set (rows merged).
                          map snd (take (length (columns world)) m) = map (lookup g) (columns world)
                          \<and> lookup m value_col = lookup v value_col))))
   \<and> (merge_sov world df code_col value_col = Inr merged'
      \<longrightarrow> length (rows merged') =
            sum_list (map (\<lambda>g. max 1 (length (filter
                 (\<lambda>v. lookup v code_col = lookup g CODE_COLUMN) (rows df)))) (rows world))
          \<and> (value_col \<notin> set (columns world)
             \<longrightarrow> (\<forall>g\<in>set (rows world). \<forall>v\<in>set (rows df).
                    lookup v code_col = lookup g CODE_COLUMN
                    \<longrightarrow> (\<exists>m\<in>set (rows merged').
                          map snd (take (length (columns world)) m) = map (lookup g) (columns world)
                          \<and> lookup m value_col = lookup v value_col))))"
proof (intro conjI impI ballI)
  show "isl (merge_iso world (df\<lparr>rows := rs\<rparr>) code_col value_col name_col) =
     isl (merge_iso world df code_col value_col name_col)" by (rule isl_merge_iso_rows)
  show "isl (merge_sov world (df\<lparr>rows := rs\<rparr>) code_col value_col) =
     isl (merge_sov world df code_col value_col)" by (rule isl_merge_sov_rows)
next
  assume "merge_iso world df code_col value_col name_col = Inr merged"
  then obtain R where "select (join_columns code_col value_col name_col) df = Inr R"
    "merge_left world R ''iso_a3'' code_col = Inr merged"
    "code_col \<in> set (join_columns code_col value_col name_col)"
    by (rule merge_iso_select)
  then show "length (rows merged) =
            sum_list (map (\<lambda>g. max 1 (length (filter
                 (\<lambda>v. lookup v code_col = lookup g ''iso_a3'') (rows df)))) (rows world))"
    by (rule length_merge_left_select)
next
  fix g v
  assume mg: "merge_iso world df code_col value_col name_col = Inr merged"
    and vc: "value_col \<notin> set (columns world)"
    and gv: "g \<in> set (rows world)" "v \<in> set (rows df)" "lookup v code_col = lookup g ''iso_a3''"
  from mg obtain R where "select (join_columns code_col value_col name_col) df = Inr R"
    "merge_left world R ''iso_a3'' code_col = Inr merged"
    "code_col \<in> set (join_columns code_col value_col name_col)"
    "value_col \<in> set (join_columns code_col value_col name_col)"
    "value_col \<noteq> code_col"
    by (rule merge_iso_select)
  then show "\<exists>m\<in>set (rows merged).
      map snd (take (length (columns world)) m) = map (lookup g) (columns world)
      \<and> lookup m value_col = lookup v value_col"
    using vc gv by (rule merged_pair_selected)
next
  assume "merge_sov world df code_col value_col = Inr merged'"
  then obtain R where "select [code_col, value_col] df = Inr R"
    "merge_left world R CODE_COLUMN code_col = Inr merged'"
    by (rule merge_sov_select)
  then show "length (rows merged') =
            sum_list (map (\<lambda>g. max 1 (length (filter
                 (\<lambda>v. lookup v code_col = lookup g CODE_COLUMN) (rows df)))) (rows world))"
    by (rule length_merge_left_select) simp
next
  fix g v
  assume mg: "merge_sov world df code_col value_col = Inr merged'"
    and vc: "value_col \<notin> set (columns world)"
    and gv: "g \<in> set (rows world)" "v \<in> set (rows df)" "lookup v code_col = lookup g CODE_COLUMN"
  from mg obtain R where "select [code_col, value_col] df = Inr R"
    "merge_left world R CODE_COLUMN code_col = Inr merged'"
    "value_col \<noteq> code_col"
    by (rule merge_sov_select)
  then show "\<exists>m\<in>set (rows merged').
      map snd (take (length (columns world)) m) = map (lookup g) (columns world)
      \<and> lookup m value_col = lookup v value_col"
    using vc gv by (intro merged_pair_selected [where cs = "[code_col, value_col]"]) simp_all
qed

theorem duplicate_codes_joined_witness:
  "isl (merge_iso sample_world_loaded ((clean_codes ''iso_a3'' sample_values)\<lparr>rows := []\<rparr>)
          ''iso_a3'' ''value'' None) =
     isl (merge_iso sample_world_loaded (clean_codes ''iso_a3'' sample_values)
          ''iso_a3'' ''value'' None)
   \<and> status (main sample_env (default_args ''in.csv'' ''out.png'')) = Returned RNone
   \<and> length (rows sample_merged) = 4
   \<and> (\<exists>m\<in>set (rows sample_merged).
        map snd (take 2 m) = [Str ''France'', Str ''FRA''] \<and> lookup m ''value'' = Num 3)
   \<and> (\<exists>m\<in>set (rows sample_merged).
        map snd (take 2 m) = [Str ''France'', Str ''FRA''] \<and> lookup m ''value'' = Num 4)
   \<and> length (rows sample_merged_sov) = 3
   \<and> (\<exists>m\<in>set (rows sample_merged_sov).
        map snd (take 3 m) = [Str ''Chad'', Str ''TCD'', Null] \<and> lookup m ''value'' = Num 6)"
proof -
  let ?df = "clean_codes ''iso_a3'' sample_values"
  let ?df' = "clean_codes ''sov_a3'' sample_values_sov"
  let ?g = "[(''name'', Str ''France''), (''iso_a3'', Str ''FRA'')]"
  let ?v3 = "[(''iso_a3'', Str ''FRA''), (''value'', Num 3)]"
  let ?v4 = "[(''iso_a3'', Str ''FRA''), (''value'', Num 4)]"
  let ?g' = "[(''SOVEREIGNT'', Str ''Chad''), (''SOV_A3'', Str ''TCD''), (''sov_a3'', Null)]"
  let ?v6 = "[(''sov_a3'', Str ''TCD''), (''value'', Num 6)]"
  note T = duplicate_codes_joined [where world = sample_world_loaded and df = ?df
      and code_col = "''iso_a3''" and value_col = "''value''" and name_col = None
      and merged = sample_merged and rs = "[]"]
  note T' = duplicate_codes_joined [where world = sample_world_sov_loaded and df = ?df'
      and code_col = "''sov_a3''" and value_col = "''value''" and merged' = sample_merged_sov]
  have w: "columns sample_world_loaded = [''name'', ''iso_a3'']"
    "?g \<in> set (rows sample_world_loaded)"
    "map (lookup ?g) (columns sample_world_loaded) = [Str ''France'', Str ''FRA'']"
    "lookup ?g ''iso_a3'' = Str ''FRA''"
    by (simp_all add: sample_world_loaded_def lookup_def)
  have w': "columns sample_world_sov_loaded = [''SOVEREIGNT'', ''SOV_A3'', ''sov_a3'']"
    "?g' \<in> set (rows sample_world_sov_loaded)"
    "map (lookup ?g') (columns sample_world_sov_loaded) = [Str ''Chad'', Str ''TCD'', Null]"
    "lookup ?g' CODE_COLUMN = Str ''TCD''"
    by (simp_all add: sample_world_sov_loaded_def lookup_def CODE_COLUMN_def)
  have d: "?v3 \<in> set (rows ?df)" "?v4 \<in> set (rows ?df)"
    "lookup ?v3 ''iso_a3'' = Str ''FRA''" "lookup ?v4 ''iso_a3'' = Str ''FRA''"
    "lookup ?v3 ''value'' = Num 3" "lookup ?v4 ''value'' = Num 4"
    by code_simp+
  have d': "?v6 \<in> set (rows ?df')" "lookup ?v6 ''sov_a3'' = Str ''TCD''"
    "lookup ?v6 ''value'' = Num 6"
    by code_simp+
  have n: "sum_list (map (\<lambda>g. max 1 (length (filter
                 (\<lambda>v. lookup v ''iso_a3'' = lookup g ''iso_a3'') (rows ?df))))
              (rows sample_world_loaded)) = 4"
    by code_simp
  have n': "sum_list (map (\<lambda>g. max 1 (length (filter
                 (\<lambda>v. lookup v ''sov_a3'' = lookup g CODE_COLUMN) (rows ?df'))))
              (rows sample_world_sov_loaded)) = 3"
    by code_simp
  have vcw: "''value'' \<notin> set (columns sample_world_loaded)"
    "''value'' \<notin> set (columns sample_world_sov_loaded)"
    by (simp_all add: w(1) w'(1))
  have 1: "isl (merge_iso sample_world_loaded (?df\<lparr>rows := []\<rparr>) ''iso_a3'' ''value'' None) =
     isl (merge_iso sample_world_loaded ?df ''iso_a3'' ''value'' None)"
    using T by blast
  have "length (rows sample_merged) =
      sum_list (map (\<lambda>g. max 1 (length (filter
                 (\<lambda>v. lookup v ''iso_a3'' = lookup g ''iso_a3'') (rows ?df))))
              (rows sample_world_loaded))"
    using T sample_merge_iso_loaded by blast
  then have 2: "length (rows sample_merged) = 4" by (simp only: n)
  have P: "\<forall>g\<in>set (rows sample_world_loaded). \<forall>v\<in>set (rows ?df).
      lookup v ''iso_a3'' = lookup g ''iso_a3''
      \<longrightarrow> (\<exists>m\<in>set (rows sample_merged).
            map snd (take (length (columns sample_world_loaded)) m) =
              map (lookup g) (columns sample_world_loaded)
            \<and> lookup m ''value'' = lookup v ''value'')"
    using T sample_merge_iso_loaded vcw(1) by blast
  have len: "length (columns sample_world_loaded) = 2"
    "length (columns sample_world_sov_loaded) = 3"
    by (simp_all add: w(1) w'(1))
  have "\<exists>m\<in>set (rows sample_merged).
            map snd (take (length (columns sample_world_loaded)) m) =
              map (lookup ?g) (columns sample_world_loaded)
            \<and> lookup m ''value'' = lookup ?v3 ''value''"
    using P w(2) d(1) w(4) d(3) by (metis (no_types, lifting))
  then have 3: "\<exists>m\<in>set (rows sample_merged).
        map snd (take 2 m) = [Str ''France'', Str ''FRA''] \<and> lookup m ''value'' = Num 3"
    by (simp only: len w(3) d(5))
  have "\<exists>m\<in>set (rows sample_merged).
            map snd (take (length (columns sample_world_loaded)) m) =
              map (lookup ?g) (columns sample_world_loaded)
            \<and> lookup m ''value'' = lookup ?v4 ''value''"
    using P w(2) d(2) w(4) d(4) by (metis (no_types, lifting))
  then have 4: "\<exists>m\<in>set (rows sample_merged).
        map snd (take 2 m) = [Str ''France'', Str ''FRA''] \<and> lookup m ''value'' = Num 4"
    by (simp only: len w(3) d(6))
  have "length (rows sample_merged_sov) =
      sum_list (map (\<lambda>g. max 1 (length (filter
                 (\<lambda>v. lookup v ''sov_a3'' = lookup g CODE_COLUMN) (rows ?df'))))
              (rows sample_world_sov_loaded))"
    using T' sample_merge_sov_loaded by blast
  then have 5: "length (rows sample_merged_sov) = 3" by (simp only: n')
  have P': "\<forall>g\<in>set (rows sample_world_sov_loaded). \<forall>v\<in>set (rows ?df').
      lookup v ''sov_a3'' = lookup g CODE_COLUMN
      \<longrightarrow> (\<exists>m\<in>set (rows sample_merged_sov).
            map snd (take (length (columns sample_world_sov_loaded)) m) =
              map (lookup g) (columns sample_world_sov_loaded)
            \<and> lookup m ''value'' = lookup v ''value'')"
    using T' sample_merge_sov_loaded vcw(2) by blast
  have "\<exists>m\<in>set (rows sample_merged_sov).
            map snd (take (length (columns sample_world_sov_loaded)) m) =
              map (lookup ?g') (columns sample_world_sov_loaded)
            \<and> lookup m ''value'' = lookup ?v6 ''value''"
    using P' w'(2) d'(1) w'(4) d'(2) by (metis (no_types, lifting))
  then have 6: "\<exists>m\<in>set (rows sample_merged_sov).
        map snd (take 3 m) = [Str ''Chad'', Str ''TCD'', Null] \<and> lookup m ''value'' = Num 6"
    by (simp only: len w'(3) d'(3))
  have 0: "status (main sample_env (default_args ''in.csv'' ''out.png'')) = Returned RNone"
    by code_simp
  from 0 1 2 3 4 5 6 show ?thesis by blast
qed




end
